theory Spec2Isabelle
  imports Complex_Main
begin

section \<open>JavaScript values\<close>

text \<open>JavaScript truthiness of a \<open>string | undefined\<close>: the empty string is falsy too.\<close>

fun truthy_str :: "string option \<Rightarrow> bool" where
  "truthy_str None = False"
| "truthy_str (Some s) = (s \<noteq> [])"

text \<open>
  A JavaScript number: a finite double, given by its exact value, or one of the three
  special values. The sign of zero is not represented (\<open>Finite 0\<close> stands for both
  zeros, which compare equal). The comparisons below are those of the language: every
  comparison with \<open>NaN\<close> is false.
\<close>

datatype jsnum = Finite real | NaN | PosInfinity | NegInfinity

fun num_less :: "jsnum \<Rightarrow> jsnum \<Rightarrow> bool" where
  "num_less NaN y = False"
| "num_less x NaN = False"
| "num_less (Finite a) (Finite b) = (a < b)"
| "num_less x NegInfinity = False"
| "num_less NegInfinity y = True"
| "num_less PosInfinity y = False"
| "num_less x PosInfinity = True"

definition num_le :: "jsnum \<Rightarrow> jsnum \<Rightarrow> bool" where
  "num_le x y = (x \<noteq> NaN \<and> y \<noteq> NaN \<and> \<not> num_less y x)"

definition isNaN :: "jsnum \<Rightarrow> bool" where
  "isNaN x = (x = NaN)"

fun isFinite :: "jsnum \<Rightarrow> bool" where
  "isFinite (Finite a) = True"
| "isFinite x = False"

fun negate :: "jsnum \<Rightarrow> jsnum" where
  "negate (Finite a) = Finite (- a)"
| "negate NaN = NaN"
| "negate PosInfinity = NegInfinity"
| "negate NegInfinity = PosInfinity"

subsection \<open>Double arithmetic\<close>

text \<open>
  The result of an arithmetic operation on doubles is the exact result rounded to the
  nearest double, a tie going to the double with the even significand (IEEE 754 binary64,
  round to nearest even). \<open>binade a\<close> is the exponent \<open>e\<close> with \<open>2^e \<le> a < 2^(e+1)\<close>,
  kept between -1022 (below it the doubles are subnormal and equally spaced) and 1024
  (from which on \<open>a\<close> is beyond the doubles). The doubles of a binade are the multiples of
  \<open>2^(e-52)\<close>.
\<close>

definition round_half_even :: "real \<Rightarrow> int" where
  "round_half_even z =
     (let n = \<lfloor>z\<rfloor>; d = z - of_int n
      in if d < 1 / 2 then n else if 1 / 2 < d then n + 1 else if even n then n else n + 1)"

function binade_up :: "int \<Rightarrow> real \<Rightarrow> int" where
  "binade_up e a = (if e < 1024 \<and> 2 powi (e + 1) \<le> a then binade_up (e + 1) a else e)"
  by pat_completeness auto
termination
  by (relation "measure (\<lambda>(e, a). nat (1024 - e))") auto

function binade_down :: "int \<Rightarrow> real \<Rightarrow> int" where
  "binade_down e a = (if - 1022 < e \<and> a < 2 powi e then binade_down (e - 1) a else e)"
  by pat_completeness auto
termination
  by (relation "measure (\<lambda>(e, a). nat (e + 1022))") auto

declare binade_up.simps [simp del] binade_down.simps [simp del]

definition binade :: "real \<Rightarrow> int" where
  "binade a = (if 1 \<le> a then binade_up 0 a else binade_down (- 1) a)"

definition to_double :: "real \<Rightarrow> jsnum" where
  "to_double x =
     (let a = \<bar>x\<bar>;
          q = 2 powi (binade a - 52);
          r = of_int (round_half_even (a / q)) * q
      in if 2 powi 1024 \<le> r then (if 0 < x then PosInfinity else NegInfinity)
         else Finite (if 0 \<le> x then r else - r))"

text \<open>\<open>x * y\<close> and \<open>x / y\<close> on numbers. (A zero divisor is taken as \<open>+0\<close>.)\<close>

fun js_times :: "jsnum \<Rightarrow> jsnum \<Rightarrow> jsnum" where
  "js_times (Finite a) (Finite b) = to_double (a * b)"
| "js_times x y =
     (if x = NaN \<or> y = NaN \<or> x = Finite 0 \<or> y = Finite 0 then NaN
      else if num_less x (Finite 0) = num_less y (Finite 0) then PosInfinity
      else NegInfinity)"

fun js_divide :: "jsnum \<Rightarrow> jsnum \<Rightarrow> jsnum" where
  "js_divide (Finite a) (Finite b) =
     (if b \<noteq> 0 then to_double (a / b)
      else if a = 0 then NaN else if 0 < a then PosInfinity else NegInfinity)"
| "js_divide (Finite a) y = (if y = NaN then NaN else Finite 0)"
| "js_divide x (Finite b) =
     (if x = NaN then NaN
      else if num_less x (Finite 0) = (b < 0) then PosInfinity else NegInfinity)"
| "js_divide x y = NaN"

text \<open>\<open>Math.round\<close>: the nearest integer, a half going up.\<close>

fun Math_round :: "jsnum \<Rightarrow> jsnum" where
  "Math_round (Finite a) = Finite (of_int \<lfloor>a + 1 / 2\<rfloor>)"
| "Math_round x = x"

subsection \<open>Values of type any\<close>

text \<open>The values that JSON and the language give a field typed \<open>any\<close>. An object is
  the list of its own properties, each name once.\<close>

datatype jsval =
    JUndefined
  | JNull
  | JBool bool
  | JNum jsnum
  | JStr string
  | JArray "jsval list"
  | JObject "(string \<times> jsval) list"

text \<open>\<open>!x\<close> is true of a number that is \<open>0\<close> or \<open>NaN\<close>.\<close>

definition truthy_num :: "jsnum \<Rightarrow> bool" where
  "truthy_num x = (x \<noteq> NaN \<and> x \<noteq> Finite 0)"

fun truthy :: "jsval \<Rightarrow> bool" where
  "truthy JUndefined = False"
| "truthy JNull = False"
| "truthy (JBool b) = b"
| "truthy (JNum x) = truthy_num x"
| "truthy (JStr s) = (s \<noteq> [])"
| "truthy (JArray xs) = True"
| "truthy (JObject kvs) = True"

text \<open>\<open>a || b\<close>\<close>

definition js_or :: "jsval \<Rightarrow> jsval \<Rightarrow> jsval" where
  "js_or a b = (if truthy a then a else b)"

text \<open>
  \<open>v.name\<close>, for a property name that no prototype defines (the program reads \<open>title\<close>,
  \<open>author\<close> and \<open>price\<close>): \<open>None\<close> is the \<open>TypeError\<close> of reading a property of
  \<open>undefined\<close> or \<open>null\<close>.
\<close>

fun get_prop :: "jsval \<Rightarrow> string \<Rightarrow> jsval option" where
  "get_prop JUndefined name = None"
| "get_prop JNull name = None"
| "get_prop (JObject kvs) name =
     Some (case map_of kvs name of None \<Rightarrow> JUndefined | Some v \<Rightarrow> v)"
| "get_prop v name = Some JUndefined"

subsection \<open>Reading numbers from strings\<close>

text \<open>The white space and line terminators that \<open>trim\<close> and the number parsers skip,
  among the characters with codes below 256 (a string is a list of such characters).\<close>

definition is_space :: "char \<Rightarrow> bool" where
  "is_space c = (of_char c \<in> {9, 10, 11, 12, 13, 32, 160 :: nat})"

definition trim :: "string \<Rightarrow> string" where
  "trim s = rev (dropWhile is_space (rev (dropWhile is_space s)))"

definition is_digit :: "char \<Rightarrow> bool" where
  "is_digit c = (48 \<le> (of_char c :: nat) \<and> (of_char c :: nat) \<le> 57)"

text \<open>The value of a digit in a radix up to 16, if the character is one.\<close>

definition digit_of :: "char \<Rightarrow> nat option" where
  "digit_of c =
     (let n = of_char c :: nat
      in if 48 \<le> n \<and> n \<le> 57 then Some (n - 48)
         else if 65 \<le> n \<and> n \<le> 70 then Some (n - 55)
         else if 97 \<le> n \<and> n \<le> 102 then Some (n - 87)
         else None)"

definition digits_value :: "int \<Rightarrow> string \<Rightarrow> int" where
  "digits_value radix ds = foldl (\<lambda>acc c. radix * acc + int (the (digit_of c))) 0 ds"

text \<open>\<open>ExponentPart\<close>, if the string starts with one: its value and the rest.\<close>

definition exponent_part :: "string \<Rightarrow> int \<times> string" where
  "exponent_part s =
     (if s \<noteq> [] \<and> (hd s = CHR ''e'' \<or> hd s = CHR ''E'') then
        let s1 = tl s;
            negative = (s1 \<noteq> [] \<and> hd s1 = CHR ''-'');
            s2 = (if s1 \<noteq> [] \<and> (hd s1 = CHR ''-'' \<or> hd s1 = CHR ''+'') then tl s1 else s1);
            ds = takeWhile is_digit s2
        in if ds = [] then (0, s)
           else (if negative then - digits_value 10 ds else digits_value 10 ds,
                 dropWhile is_digit s2)
      else (0, s))"

text \<open>
  The longest \<open>StrUnsignedDecimalLiteral\<close> the string starts with (\<open>Infinity\<close>, or
  digits with an optional fraction and exponent), as the number it denotes and the rest
  of the string; \<open>None\<close> when the string starts with none.
\<close>

definition unsigned_literal :: "string \<Rightarrow> (jsnum \<times> string) option" where
  "unsigned_literal s =
     (if take 8 s = ''Infinity'' then Some (PosInfinity, drop 8 s)
      else
        let d1 = takeWhile is_digit s;
            s1 = dropWhile is_digit s;
            dot = (s1 \<noteq> [] \<and> hd s1 = CHR ''.'');
            d2 = (if dot then takeWhile is_digit (tl s1) else []);
            s2 = (if dot then dropWhile is_digit (tl s1) else s1)
        in if d1 = [] \<and> d2 = [] then None
           else
             let (ex, s3) = exponent_part s2
             in Some (to_double
                        ((of_int (digits_value 10 d1)
                          + of_int (digits_value 10 d2) / 10 ^ length d2) * 10 powi ex),
                      s3))"

text \<open>A sign before a literal.\<close>

definition signed_literal :: "string \<Rightarrow> (jsnum \<times> string) option" where
  "signed_literal s =
     (if s \<noteq> [] \<and> hd s = CHR ''-'' then
        map_option (\<lambda>(v, rest). (negate v, rest)) (unsigned_literal (tl s))
      else if s \<noteq> [] \<and> hd s = CHR ''+'' then unsigned_literal (tl s)
      else unsigned_literal s)"

text \<open>\<open>parseFloat\<close> of a string: leading white space is skipped and the longest
  literal at the start is read; what follows it is ignored.\<close>

definition parseFloat_string :: "string \<Rightarrow> jsnum" where
  "parseFloat_string s =
     (case signed_literal (dropWhile is_space s) of
        None \<Rightarrow> NaN
      | Some (v, rest) \<Rightarrow> v)"

text \<open>\<open>0x\<close>, \<open>0o\<close> and \<open>0b\<close> integers, which carry no sign.\<close>

definition radix_of_prefix :: "string \<Rightarrow> int option" where
  "radix_of_prefix s =
     (if take 2 s = ''0x'' \<or> take 2 s = ''0X'' then Some 16
      else if take 2 s = ''0o'' \<or> take 2 s = ''0O'' then Some 8
      else if take 2 s = ''0b'' \<or> take 2 s = ''0B'' then Some 2
      else None)"

definition radix_digits :: "int \<Rightarrow> string \<Rightarrow> bool" where
  "radix_digits radix ds =
     (ds \<noteq> [] \<and> (\<forall>c \<in> set ds. case digit_of c of None \<Rightarrow> False | Some d \<Rightarrow> int d < radix))"

text \<open>
  The number a string converts to (\<open>StringToNumber\<close>): white space around it is
  dropped, the empty string is 0, and the whole of what is left has to be one literal.
\<close>

definition StringToNumber :: "string \<Rightarrow> jsnum" where
  "StringToNumber s =
     (let t = trim s in
      if t = [] then Finite 0
      else case radix_of_prefix t of
             Some radix \<Rightarrow>
               if radix_digits radix (drop 2 t)
               then to_double (of_int (digits_value radix (drop 2 t))) else NaN
           | None \<Rightarrow>
               (case signed_literal t of
                  Some (v, []) \<Rightarrow> v
                | _ \<Rightarrow> NaN))"

text \<open>
  Converting a value to a string throws a \<open>TypeError\<close> when the value is, or an array
  holds, an object with an own property \<open>toString\<close> (parsed from JSON, it is not a
  function); otherwise it succeeds.
\<close>

fun stringifies :: "jsval \<Rightarrow> bool" where
  "stringifies (JObject kvs) = (''toString'' \<notin> fst ` set kvs)"
| "stringifies (JArray xs) = (\<forall>x \<in> set xs. stringifies x)"
| "stringifies v = True"

text \<open>
  \<open>ToNumber\<close> of a value that converts (an object goes through its string, which is
  \<open>[object Object]\<close>; an array through the strings of its elements joined by commas).
  The string of a number reads back as that number.
\<close>

fun to_number :: "jsval \<Rightarrow> jsnum" where
  "to_number JUndefined = NaN"
| "to_number JNull = Finite 0"
| "to_number (JBool b) = Finite (if b then 1 else 0)"
| "to_number (JNum x) = x"
| "to_number (JStr s) = StringToNumber s"
| "to_number (JObject kvs) = NaN"
| "to_number (JArray []) = Finite 0"
| "to_number (JArray [JUndefined]) = Finite 0"
| "to_number (JArray [JNull]) = Finite 0"
| "to_number (JArray [JBool b]) = NaN"
| "to_number (JArray [x]) = to_number x"
| "to_number (JArray (x # y # zs)) = NaN"

definition ToNumber :: "jsval \<Rightarrow> jsnum option" where
  "ToNumber v = (if stringifies v then Some (to_number v) else None)"

text \<open>\<open>v <= 0\<close>; \<open>None\<close> when the conversion throws.\<close>

definition le_zero :: "jsval \<Rightarrow> bool option" where
  "le_zero v = map_option (\<lambda>x. num_le x (Finite 0)) (ToNumber v)"

text \<open>\<open>parseFloat\<close> of a value that converts to a string: the string of an array starts
  with the string of its first element, and the comma after it ends every literal.\<close>

fun parse_float :: "jsval \<Rightarrow> jsnum" where
  "parse_float (JStr s) = parseFloat_string s"
| "parse_float (JNum x) = x"
| "parse_float (JArray (JArray ys # xs)) = parse_float (JArray ys)"
| "parse_float (JArray (JStr s # xs)) = parseFloat_string s"
| "parse_float (JArray (JNum x # xs)) = x"
| "parse_float v = NaN"

definition parseFloat :: "jsval \<Rightarrow> jsnum option" where
  "parseFloat v = (if stringifies v then Some (parse_float v) else None)"

text \<open>
  \<open>parseInt(s, 10)\<close>: leading white space is skipped, a sign is read, and the longest
  run of decimal digits that follows is the value, as a double; \<open>NaN\<close> when there is no
  digit.
\<close>

definition parseInt :: "string \<Rightarrow> jsnum" where
  "parseInt s =
     (let s1 = dropWhile is_space s;
          negative = (s1 \<noteq> [] \<and> hd s1 = CHR ''-'');
          s2 = (if s1 \<noteq> [] \<and> (hd s1 = CHR ''-'' \<or> hd s1 = CHR ''+'') then tl s1 else s1);
          ds = takeWhile is_digit s2
      in if ds = [] then NaN
         else if negative then negate (to_double (of_int (digits_value 10 ds)))
         else to_double (of_int (digits_value 10 ds)))"

section \<open>Rate limiting per origin (security.middleware.ts)\<close>

text \<open>
  The part of an Express request the security middleware reads: the method, the client
  address \<open>req.ip\<close> and the headers fetched with \<open>req.get\<close>. A header that is not sent
  is \<open>None\<close> (JavaScript \<open>undefined\<close>).
\<close>

record request =
  http_method :: string
  ip :: "string option"
  origin_header :: "string option"
  referer_header :: "string option"
  host_header :: "string option"

text \<open>The body a middleware sends: the \<open>error\<close> and \<open>message\<close> of a JSON object, or
  the plain text of \<open>sendStatus\<close>.\<close>

datatype reply_body = JsonError string string | PlainText string

text \<open>What a middleware does with a request: call \<open>next()\<close>, send a response with a
  status and a body, or let an exception escape to Express.\<close>

datatype mw_result = Next | Respond nat reply_body | Throws

text \<open>One entry of the module-level map \<open>requestCounts\<close>. The counter and the
  millisecond timestamps are whole numbers; the configured maximum is any number.\<close>

record rate_record =
  count :: int
  resetTime :: int

type_synonym requestCounts = "string \<rightharpoonup> rate_record"

text \<open>\<open>req.ip || req.get('Origin') || 'unknown'\<close>\<close>

definition identifier_of :: "request \<Rightarrow> string" where
  "identifier_of req =
     (if truthy_str (ip req) then the (ip req)
      else if truthy_str (origin_header req) then the (origin_header req)
      else ''unknown'')"

definition too_many_requests :: mw_result where
  "too_many_requests =
     Respond 429 (JsonError ''Too many requests'' ''Rate limit exceeded. Please try again later.'')"

text \<open>
  The handler returned by \<open>rateLimitByOrigin(maxRequests, windowMs)\<close>, with the clock
  reading \<open>Date.now()\<close> and the map passed in and the updated map returned.
  \<open>current.count++\<close> mutates the object stored in the map, hence the map update.
\<close>

definition rateLimitByOrigin ::
  "jsnum \<Rightarrow> int \<Rightarrow> request \<Rightarrow> int \<Rightarrow> requestCounts \<Rightarrow> requestCounts \<times> mw_result" where
  "rateLimitByOrigin maxRequests windowMs req now requestCounts =
     (let identifier = identifier_of req in
      case requestCounts identifier of
        None \<Rightarrow>
          (requestCounts(identifier \<mapsto> \<lparr>count = 1, resetTime = now + windowMs\<rparr>), Next)
      | Some current \<Rightarrow>
          if now > resetTime current then
            (requestCounts(identifier \<mapsto> \<lparr>count = 1, resetTime = now + windowMs\<rparr>), Next)
          else if num_le maxRequests (Finite (of_int (count current))) then
            (requestCounts, too_many_requests)
          else
            (requestCounts(identifier \<mapsto> current\<lparr>count := count current + 1\<rparr>), Next))"

text \<open>The limiter serving a sequence of requests, each paired with the clock reading at
  its arrival; the result is the final map and the outcome of every request, in order.\<close>

fun serve ::
  "jsnum \<Rightarrow> int \<Rightarrow> (request \<times> int) list \<Rightarrow> requestCounts \<Rightarrow> requestCounts \<times> mw_result list" where
  "serve maxRequests windowMs [] requestCounts = (requestCounts, [])"
| "serve maxRequests windowMs ((req, now) # rest) requestCounts =
     (let (counts', out) = rateLimitByOrigin maxRequests windowMs req now requestCounts;
          (counts'', outs) = serve maxRequests windowMs rest counts'
      in (counts'', out # outs))"

text \<open>The outcomes that belong to the requests of one identifier.\<close>

definition outcomes_of ::
  "string \<Rightarrow> (request \<times> int) list \<Rightarrow> mw_result list \<Rightarrow> mw_result list" where
  "outcomes_of ident reqs outs =
     map snd (filter (\<lambda>((req, now), out). identifier_of req = ident) (zip reqs outs))"

text \<open>The router mounts \<open>rateLimitByOrigin(100, 15 * 60 * 1000)\<close>.\<close>

definition api_rate_limit :: "request \<Rightarrow> int \<Rightarrow> requestCounts \<Rightarrow> requestCounts \<times> mw_result" where
  "api_rate_limit = rateLimitByOrigin (Finite 100) (15 * 60 * 1000)"

section \<open>Origin check (security.middleware.ts)\<close>

text \<open>The two environment variables \<open>getAllowedOrigins\<close> reads.\<close>

record env =
  VERCEL_URL :: "string option"
  CUSTOM_DOMAIN :: "string option"

definition getAllowedOrigins :: "env \<Rightarrow> string list" where
  "getAllowedOrigins e =
     [''http://localhost:3000'', ''http://127.0.0.1:3000'']
     @ (if truthy_str (VERCEL_URL e) then [''https://'' @ the (VERCEL_URL e)] else [])
     @ (if truthy_str (CUSTOM_DOMAIN e) then [''https://'' @ the (CUSTOM_DOMAIN e)] else [])"

text \<open>
  \<open>isFromSameDomain\<close> calls the platform's \<open>new URL(referer)\<close> and reads \<open>.host\<close>. The URL
  parser is not part of the repository: it is the parameter \<open>URL_host\<close>, which gives the
  host of a string that parses and \<open>None\<close> where the constructor throws a \<open>TypeError\<close>.
  The result of \<open>isFromSameDomain\<close> is \<open>None\<close> when that exception escapes.
\<close>

definition isFromSameDomain ::
  "(string \<Rightarrow> string option) \<Rightarrow> string option \<Rightarrow> request \<Rightarrow> bool option" where
  "isFromSameDomain URL_host referer req =
     (if \<not> truthy_str referer then Some False
      else case URL_host (the referer) of
             None \<Rightarrow> None
           | Some refererHost \<Rightarrow> Some (Some refererHost = host_header req))"

definition cors_headers :: "(string \<times> string) list" where
  "cors_headers =
     [(''Access-Control-Allow-Credentials'', ''true''),
      (''Access-Control-Allow-Methods'', ''GET, POST, PUT, DELETE, OPTIONS''),
      (''Access-Control-Allow-Headers'',
       ''Origin, X-Requested-With, Content-Type, Accept, Authorization, X-Frontend-Token'')]"

text \<open>The part of \<open>enhancedCors\<close> after the origin check, given the headers set so far.\<close>

definition cors_finish :: "request \<Rightarrow> (string \<times> string) list \<Rightarrow> (string \<times> string) list \<times> mw_result" where
  "cors_finish req hs =
     (hs @ cors_headers,
      if http_method req = ''OPTIONS'' then Respond 200 (PlainText ''OK'') else Next)"

definition forbidden_origin :: "(string \<times> string) list \<times> mw_result" where
  "forbidden_origin =
     ([], Respond 403 (JsonError ''Forbidden: Invalid origin''
                         ''Requests are only allowed from the official frontend''))"

text \<open>\<open>enhancedCors\<close>: the response headers it has set, in order, and what it did.\<close>

definition enhancedCors ::
  "env \<Rightarrow> (string \<Rightarrow> string option) \<Rightarrow> request \<Rightarrow> (string \<times> string) list \<times> mw_result" where
  "enhancedCors e URL_host req =
     (let origin = origin_header req;
          referer = referer_header req;
          allowedOrigins = getAllowedOrigins e
      in if truthy_str origin \<and> the origin \<in> set allowedOrigins then
           cors_finish req [(''Access-Control-Allow-Origin'', the origin)]
         else if \<not> truthy_str origin then
           (case isFromSameDomain URL_host referer req of
              None \<Rightarrow> ([], Throws)
            | Some True \<Rightarrow> cors_finish req [(''Access-Control-Allow-Origin'', ''*'')]
            | Some False \<Rightarrow> forbidden_origin)
         else forbidden_origin)"

text \<open>The requests for which \<open>enhancedCors\<close> takes one of its two branches that set
  \<open>Access-Control-Allow-Origin\<close>, and the value it sets there.\<close>

definition origin_accepted :: "env \<Rightarrow> (string \<Rightarrow> string option) \<Rightarrow> request \<Rightarrow> bool" where
  "origin_accepted e URL_host req =
     ((truthy_str (origin_header req) \<and> the (origin_header req) \<in> set (getAllowedOrigins e))
      \<or> (\<not> truthy_str (origin_header req)
          \<and> isFromSameDomain URL_host (referer_header req) req = Some True))"

definition allow_origin_value :: "request \<Rightarrow> string" where
  "allow_origin_value req =
     (if truthy_str (origin_header req) then the (origin_header req) else ''*'')"

section \<open>Numeric sanitizer (validation.utils.ts)\<close>

text \<open>What a function that has no \<open>try\<close> of its own does: it returns a value, or a
  \<open>TypeError\<close> raised by a conversion escapes it.\<close>

datatype 'a completion = Returns 'a | TypeError

definition sanitizeNumber :: "jsval \<Rightarrow> jsnum option completion" where
  "sanitizeNumber input =
     (if input = JNull \<or> input = JUndefined \<or> input = JStr [] then Returns None
      else
        case parseFloat input of
          None \<Rightarrow> TypeError
        | Some num \<Rightarrow>
            if isNaN num \<or> \<not> isFinite num then Returns None
            else if num_less (Finite 999999999) num \<or> num_less num (Finite (- 999999999))
            then Returns None
            else Returns (Some (js_divide (Math_round (js_times num (Finite 100))) (Finite 100))))"

section \<open>Search-term sanitizer and product listing (supabase.service.ts)\<close>

text \<open>
  The regular expressions of the sanitizer have no \<open>u\<close> flag, so \<open>\w\<close>, \<open>\b\<close> and
  case-insensitive matching of the (ASCII) keywords look at ASCII letters, digits and
  the underscore only.
\<close>

definition dangerous_chars :: "char list" where
  "dangerous_chars = [CHR '';'', CHR 0x27, CHR 0x22, CHR 0x5C]"

text \<open>\<open>.replace(/[;'"\\]/g, '')\<close>\<close>

definition remove_dangerous :: "string \<Rightarrow> string" where
  "remove_dangerous s = filter (\<lambda>c. c \<notin> set dangerous_chars) s"

text \<open>\<open>.replace(/ab/g, '')\<close> for a literal two-character pattern: matches are found from
  left to right and do not overlap.\<close>

fun remove_pair :: "char \<Rightarrow> char \<Rightarrow> string \<Rightarrow> string" where
  "remove_pair a b (x # y # zs) =
     (if x = a \<and> y = b then remove_pair a b zs else x # remove_pair a b (y # zs))"
| "remove_pair a b zs = zs"

text \<open>\<open>\w\<close>\<close>

definition is_word_char :: "char \<Rightarrow> bool" where
  "is_word_char c =
     (let n = of_char c :: nat
      in (48 \<le> n \<and> n \<le> 57) \<or> (65 \<le> n \<and> n \<le> 90) \<or> n = 95 \<or> (97 \<le> n \<and> n \<le> 122))"

text \<open>The canonical form a character is compared in under the \<open>i\<close> flag.\<close>

definition to_upper :: "char \<Rightarrow> char" where
  "to_upper c =
     (let n = of_char c :: nat in if 97 \<le> n \<and> n \<le> 122 then char_of (n - 32) else c)"

definition sqlKeywords :: "string list" where
  "sqlKeywords =
     [''SELECT'', ''INSERT'', ''UPDATE'', ''DELETE'', ''DROP'', ''UNION'', ''ALTER'',
      ''CREATE'', ''EXEC'', ''EXECUTE'']"

text \<open>An alternative of the group matches at the start of \<open>s\<close>.\<close>

definition keyword_here :: "string \<Rightarrow> string \<Rightarrow> bool" where
  "keyword_here k s = (length k \<le> length s \<and> map to_upper (take (length k) s) = k)"

text \<open>\<open>\b\<close> between a previous character (a word character or not; not at the start of
  the input) and the rest of the input.\<close>

definition word_boundary :: "bool \<Rightarrow> string \<Rightarrow> bool" where
  "word_boundary prev_word s = (prev_word \<noteq> (s \<noteq> [] \<and> is_word_char (hd s)))"

text \<open>
  \<open>/\b(SELECT|...|EXECUTE)\b/i.test(s)\<close>: the expression is tried at every start
  position, and at each one the alternatives are tried in turn, so the test succeeds
  when some alternative matches somewhere between two word boundaries.
\<close>

fun test_from :: "bool \<Rightarrow> string \<Rightarrow> bool" where
  "test_from prev_word [] = False"
| "test_from prev_word (c # cs) =
     ((word_boundary prev_word (c # cs) \<and>
       (\<exists>k \<in> set sqlKeywords.
          keyword_here k (c # cs) \<and>
          word_boundary (is_word_char (last (take (length k) (c # cs))))
            (drop (length k) (c # cs))))
      \<or> test_from (is_word_char c) cs)"

definition sqlKeywords_test :: "string \<Rightarrow> bool" where
  "sqlKeywords_test s = test_from False s"

definition clean_term :: "string \<Rightarrow> string" where
  "clean_term term =
     trim (remove_pair (CHR ''*'') (CHR ''/'')
            (remove_pair (CHR ''/'') (CHR ''*'')
              (remove_pair (CHR ''-'') (CHR ''-'') (remove_dangerous term))))"

definition sanitizeSearchTerm :: "string \<Rightarrow> string option" where
  "sanitizeSearchTerm term =
     (let cleaned = clean_term term in
      if sqlKeywords_test cleaned then None
      else if length cleaned > 0 then Some cleaned else None)"

text \<open>
  The spec's wording, to compare the regular expression with: the string contains a
  reserved keyword, in any letter case, with no word character next to it on either side.
\<close>

definition contains_sql_keyword :: "string \<Rightarrow> bool" where
  "contains_sql_keyword s =
     (\<exists>pre mid post.
        s = pre @ mid @ post \<and> map to_upper mid \<in> set sqlKeywords \<and>
        (pre = [] \<or> \<not> is_word_char (last pre)) \<and>
        (post = [] \<or> \<not> is_word_char (hd post)))"

text \<open>The query \<open>getProducts\<close> builds on the client before awaiting it.\<close>

record products_query =
  from_table :: string
  select_columns :: string
  limit_rows :: nat
  order_column :: string
  order_ascending :: bool
  or_filter :: "string option"

definition getProducts_query :: "string option \<Rightarrow> products_query" where
  "getProducts_query searchTerm =
     (let query = \<lparr>from_table = ''products'', select_columns = ''*'', limit_rows = 100,
                   order_column = ''created_at'', order_ascending = False,
                   or_filter = None\<rparr>
      in if truthy_str searchTerm then
           (case sanitizeSearchTerm (the searchTerm) of
              None \<Rightarrow> query
            | Some sanitizedTerm \<Rightarrow>
                if sanitizedTerm \<noteq> [] then
                  query\<lparr>or_filter :=
                    Some (''title.ilike.%'' @ sanitizedTerm @ ''%,author.ilike.%''
                          @ sanitizedTerm @ ''%'')\<rparr>
                else query)
         else query)"

section \<open>Users and the hosted backend\<close>

text \<open>The user object the backend resolves a token to, as far as the middleware reads
  it: two metadata objects, each of which may be missing, with a \<open>role\<close> of any type.\<close>

record metadata =
  role :: jsval

record user =
  user_metadata :: "metadata option"
  app_metadata :: "metadata option"

text \<open>\<open>m?.role\<close>\<close>

fun role_of :: "metadata option \<Rightarrow> jsval" where
  "role_of None = JUndefined"
| "role_of (Some m) = role m"

text \<open>The error object of a backend answer; only its \<open>message\<close> is read.\<close>

datatype backend_error = BackendError (error_message: "string option")

text \<open>
  The methods of \<open>supabaseService\<close> that talk to the hosted backend. Each one wraps a
  single call of the client library in \<open>try\<close>/\<open>catch\<close> and returns \<open>{data, error}\<close>, an
  exception becoming the \<open>error\<close>; the answers of the backend are the parameters of the
  model. Product data and rows are JSON values: the request body is handed on as it was
  parsed, with no check of its type. \<open>run_query\<close> is the awaited query of
  \<open>getProducts\<close>.
\<close>

record supabaseService =
  verifyToken :: "string \<Rightarrow> user option \<times> backend_error option"
  run_query :: "products_query \<Rightarrow> string option \<Rightarrow> jsval list option \<times> backend_error option"
  getProductById :: "jsnum \<Rightarrow> string option \<Rightarrow> jsval option \<times> backend_error option"
  createProduct :: "jsval \<Rightarrow> string option \<Rightarrow> jsval list option \<times> backend_error option"
  updateProduct ::
    "jsnum \<Rightarrow> jsval \<Rightarrow> string option \<Rightarrow> jsval list option \<times> backend_error option"
  deleteProduct :: "jsnum \<Rightarrow> string option \<Rightarrow> backend_error option"

definition getProducts ::
  "supabaseService \<Rightarrow> string option \<Rightarrow> string option \<Rightarrow>
   jsval list option \<times> backend_error option" where
  "getProducts svc searchTerm accessToken = run_query svc (getProducts_query searchTerm) accessToken"

text \<open>A call of the service, with the arguments it was given.\<close>

datatype service_call =
    GetProducts "string option" "string option"
  | GetProductById jsnum "string option"
  | CreateProduct jsval "string option"
  | UpdateProduct jsnum jsval "string option"
  | DeleteProduct jsnum "string option"

text \<open>
  The three calls of the write path and the lookup before them: the answer of the
  service together with the record of the call, both made from the same arguments. The
  handlers reach the service through these only.
\<close>

definition call_getProductById ::
  "supabaseService \<Rightarrow> jsnum \<Rightarrow> string option \<Rightarrow>
   (jsval option \<times> backend_error option) \<times> service_call" where
  "call_getProductById svc n token = (getProductById svc n token, GetProductById n token)"

definition call_createProduct ::
  "supabaseService \<Rightarrow> jsval \<Rightarrow> string option \<Rightarrow>
   (jsval list option \<times> backend_error option) \<times> service_call" where
  "call_createProduct svc productData token =
     (createProduct svc productData token, CreateProduct productData token)"

definition call_updateProduct ::
  "supabaseService \<Rightarrow> jsnum \<Rightarrow> jsval \<Rightarrow> string option \<Rightarrow>
   (jsval list option \<times> backend_error option) \<times> service_call" where
  "call_updateProduct svc n productData token =
     (updateProduct svc n productData token, UpdateProduct n productData token)"

definition call_deleteProduct ::
  "supabaseService \<Rightarrow> jsnum \<Rightarrow> string option \<Rightarrow> backend_error option \<times> service_call" where
  "call_deleteProduct svc n token = (deleteProduct svc n token, DeleteProduct n token)"

text \<open>The request as the product routes see it, with the fields the auth middleware
  attaches. The body is whatever the JSON or form parser made of it.\<close>

record api_request =
  authorization :: "string option"
  req_user :: "user option"
  accessToken :: "string option"
  params_id :: string
  query_search :: "string option"
  body :: jsval

text \<open>The \<open>message\<close> of a response: a fixed text, or one of the two templates
  \<open>Product with ID ${id} does not exist\<close> and \<open>Found ${data?.length} products\<close>.\<close>

datatype message =
    Text string
  | ProductMissing jsnum
  | FoundProducts "nat option"

datatype payload = NoData | Row "jsval option" | Rows "jsval list" | PlainData string

record response =
  status :: nat
  error_field :: "string option"
  message_field :: "message option"
  data_field :: payload

definition json_error :: "nat \<Rightarrow> string \<Rightarrow> message \<Rightarrow> response" where
  "json_error code err msg =
     \<lparr>status = code, error_field = Some err, message_field = Some msg, data_field = NoData\<rparr>"

text \<open>\<open>error.message || 'Internal server error'\<close>\<close>

definition message_or_default :: "backend_error \<Rightarrow> message" where
  "message_or_default e =
     (if truthy_str (error_message e) then Text (the (error_message e))
      else Text ''Internal server error'')"

text \<open>\<open>data?.[0]\<close>\<close>

fun first_row :: "jsval list option \<Rightarrow> jsval option" where
  "first_row None = None"
| "first_row (Some []) = None"
| "first_row (Some (x # xs)) = Some x"

section \<open>Authorization middleware (auth.middleware.ts)\<close>

text \<open>A middleware of this section returns the request, with what it attached, and what
  it did.\<close>

definition requireAuth :: "supabaseService \<Rightarrow> api_request \<Rightarrow> api_request \<times> mw_result" where
  "requireAuth svc req =
     (let authHeader = authorization req in
      if \<not> truthy_str authHeader \<or> take 7 (the authHeader) \<noteq> ''Bearer '' then
        (req, Respond 401 (JsonError ''Unauthorized'' ''Missing or invalid authorization header''))
      else
        let token = drop 7 (the authHeader);
            (usr, err) = verifyToken svc token
        in if err \<noteq> None \<or> usr = None then
             (req, Respond 401 (JsonError ''Unauthorized'' ''Invalid or expired token''))
           else (req\<lparr>req_user := usr, accessToken := Some token\<rparr>, Next))"

definition requireAdmin :: "api_request \<Rightarrow> mw_result" where
  "requireAdmin req =
     (case req_user req of
        None \<Rightarrow> Respond 401 (JsonError ''Unauthorized'' ''Authentication required'')
      | Some u \<Rightarrow>
          let userRole = js_or (role_of (user_metadata u)) (role_of (app_metadata u))
          in if userRole \<noteq> JStr ''admin''
             then Respond 403 (JsonError ''Forbidden'' ''Admin access required'')
             else Next)"

definition optionalAuth :: "supabaseService \<Rightarrow> api_request \<Rightarrow> api_request \<times> mw_result" where
  "optionalAuth svc req =
     (let authHeader = authorization req in
      if truthy_str authHeader \<and> take 7 (the authHeader) = ''Bearer '' then
        let token = drop 7 (the authHeader);
            (usr, err) = verifyToken svc token
        in if err = None \<and> usr \<noteq> None
           then (req\<lparr>req_user := usr, accessToken := Some token\<rparr>, Next)
           else (req, Next)
      else (req, Next))"

section \<open>Product controller (product.controller.ts)\<close>

text \<open>\<open>isNaN(id) || id <= 0\<close>\<close>

definition invalid_id :: "jsnum \<Rightarrow> bool" where
  "invalid_id n = (isNaN n \<or> num_le n (Finite 0))"

definition invalid_product_id :: response where
  "invalid_product_id =
     json_error 400 ''Invalid product ID'' (Text ''Product ID must be a positive number'')"

definition invalid_price :: response where
  "invalid_price = json_error 400 ''Invalid price'' (Text ''Price must be greater than 0'')"

definition product_not_found :: "jsnum \<Rightarrow> response" where
  "product_not_found n = json_error 404 ''Product not found'' (ProductMissing n)"

text \<open>The answer of a handler's \<open>catch\<close> block, reached when reading a field of the body
  or converting one throws.\<close>

definition caught :: "string \<Rightarrow> response" where
  "caught what =
     json_error 500 ''Internal server error''
       (Text (''An unexpected error occurred while '' @ what))"

text \<open>\<open>!existingProduct\<close>, for the \<open>data\<close> of a lookup (\<open>None\<close> is \<open>null\<close>).\<close>

fun not_existing :: "jsval option \<Rightarrow> bool" where
  "not_existing None = True"
| "not_existing (Some row) = (\<not> truthy row)"

text \<open>Every handler returns the response it sends and the service calls it made.\<close>

definition productController_getProducts ::
  "supabaseService \<Rightarrow> api_request \<Rightarrow> response \<times> service_call list" where
  "productController_getProducts svc req =
     (let search = query_search req;
          (data, err) = getProducts svc search (accessToken req);
          calls = [GetProducts search (accessToken req)]
      in case err of
           Some e \<Rightarrow> (json_error 500 ''Failed to fetch products'' (message_or_default e), calls)
         | None \<Rightarrow>
             (\<lparr>status = 200, error_field = None,
               message_field =
                 Some (if data = Some [] then Text ''No products found''
                       else FoundProducts (map_option length data)),
               data_field = Rows (case data of None \<Rightarrow> [] | Some rows \<Rightarrow> rows)\<rparr>,
              calls))"

text \<open>What \<open>createProduct\<close> answers once the service has answered.\<close>

definition created :: "jsval list option \<times> backend_error option \<Rightarrow> response" where
  "created answer =
     (case snd answer of
        Some e \<Rightarrow> json_error 500 ''Failed to create product'' (message_or_default e)
      | None \<Rightarrow>
          \<lparr>status = 201, error_field = None,
           message_field = Some (Text ''Product created successfully''),
           data_field = Row (first_row (fst answer))\<rparr>)"

definition productController_createProduct ::
  "supabaseService \<Rightarrow> api_request \<Rightarrow> response \<times> service_call list" where
  "productController_createProduct svc req =
     (let productData = body req in
      case (get_prop productData ''title'', get_prop productData ''author'',
            get_prop productData ''price'') of
        (Some title, Some author, Some price) \<Rightarrow>
          if \<not> truthy title \<or> \<not> truthy author \<or> \<not> truthy price then
            (json_error 400 ''Missing required fields''
               (Text ''Title, author, and price are required''), [])
          else
            (case le_zero price of
               None \<Rightarrow> (caught ''creating the product'', [])
             | Some True \<Rightarrow> (invalid_price, [])
             | Some False \<Rightarrow>
                 let (answer, call) = call_createProduct svc productData (accessToken req)
                 in (created answer, [call]))
      | _ \<Rightarrow> (caught ''creating the product'', []))"

text \<open>What \<open>updateProduct\<close> answers once the service has answered.\<close>

definition updated :: "jsval list option \<times> backend_error option \<Rightarrow> response" where
  "updated answer =
     (case snd answer of
        Some e \<Rightarrow> json_error 500 ''Failed to update product'' (message_or_default e)
      | None \<Rightarrow>
          \<lparr>status = 200, error_field = None,
           message_field = Some (Text ''Product updated successfully''),
           data_field = Row (first_row (fst answer))\<rparr>)"

text \<open>\<open>productData.price !== undefined && productData.price <= 0\<close>\<close>

definition price_given_and_le_zero :: "jsval \<Rightarrow> bool option" where
  "price_given_and_le_zero price = (if price \<noteq> JUndefined then le_zero price else Some False)"

definition productController_updateProduct ::
  "supabaseService \<Rightarrow> api_request \<Rightarrow> response \<times> service_call list" where
  "productController_updateProduct svc req =
     (let n = parseInt (params_id req);
          productData = body req
      in if invalid_id n then (invalid_product_id, [])
         else
           case get_prop productData ''price'' of
             None \<Rightarrow> (caught ''updating the product'', [])
           | Some price \<Rightarrow>
               (case price_given_and_le_zero price of
                  None \<Rightarrow> (caught ''updating the product'', [])
                | Some True \<Rightarrow> (invalid_price, [])
                | Some False \<Rightarrow>
                    let ((existingProduct, lookup_err), lookup) =
                          call_getProductById svc n (accessToken req)
                    in if not_existing existingProduct then (product_not_found n, [lookup])
                       else
                         let (answer, call) =
                               call_updateProduct svc n productData (accessToken req)
                         in (updated answer, [lookup, call])))"

definition productController_deleteProduct ::
  "supabaseService \<Rightarrow> api_request \<Rightarrow> response \<times> service_call list" where
  "productController_deleteProduct svc req =
     (let n = parseInt (params_id req)
      in if invalid_id n then (invalid_product_id, [])
         else
           let ((existingProduct, lookup_err), lookup) =
                 call_getProductById svc n (accessToken req)
           in if not_existing existingProduct then (product_not_found n, [lookup])
              else
                let (err, call) = call_deleteProduct svc n (accessToken req)
                in case err of
                     Some e \<Rightarrow>
                       (json_error 500 ''Failed to delete product'' (message_or_default e),
                        [lookup, call])
                   | None \<Rightarrow>
                       (\<lparr>status = 200, error_field = None,
                         message_field = Some (Text ''Product deleted successfully''),
                         data_field = NoData\<rparr>, [lookup, call]))"

section \<open>Product routes (products.routes.ts)\<close>

text \<open>The response a middleware sent, if it sent one.\<close>

fun reply_of :: "mw_result \<Rightarrow> response option" where
  "reply_of (Respond code (JsonError err msg)) =
     Some \<lparr>status = code, error_field = Some err, message_field = Some (Text msg),
           data_field = NoData\<rparr>"
| "reply_of (Respond code (PlainText t)) =
     Some \<lparr>status = code, error_field = None, message_field = None,
           data_field = PlainData t\<rparr>"
| "reply_of r = None"

text \<open>\<open>router.post('/', requireAuth, requireAdmin, productController.createProduct)\<close>
  and its siblings: each handler runs only if the one before it called \<open>next()\<close>.\<close>

definition admin_route ::
  "(supabaseService \<Rightarrow> api_request \<Rightarrow> response \<times> service_call list) \<Rightarrow>
   supabaseService \<Rightarrow> api_request \<Rightarrow> response option \<times> service_call list" where
  "admin_route handler svc req =
     (case requireAuth svc req of
        (req1, Next) \<Rightarrow>
          (case requireAdmin req1 of
             Next \<Rightarrow> (let (res, calls) = handler svc req1 in (Some res, calls))
           | denied \<Rightarrow> (reply_of denied, []))
      | (req1, denied) \<Rightarrow> (reply_of denied, []))"

definition post_products ::
  "supabaseService \<Rightarrow> api_request \<Rightarrow> response option \<times> service_call list" where
  "post_products = admin_route productController_createProduct"

definition put_products ::
  "supabaseService \<Rightarrow> api_request \<Rightarrow> response option \<times> service_call list" where
  "put_products = admin_route productController_updateProduct"

definition delete_products ::
  "supabaseService \<Rightarrow> api_request \<Rightarrow> response option \<times> service_call list" where
  "delete_products = admin_route productController_deleteProduct"

definition get_products ::
  "supabaseService \<Rightarrow> api_request \<Rightarrow> response option \<times> service_call list" where
  "get_products svc req =
     (case optionalAuth svc req of
        (req1, Next) \<Rightarrow> (let (res, calls) = productController_getProducts svc req1 in (Some res, calls))
      | (req1, denied) \<Rightarrow> (reply_of denied, []))"

section \<open>Sample requests\<close>

definition client_a :: request where
  "client_a = \<lparr>http_method = ''GET'', ip = Some ''10.0.0.1'', origin_header = None,
               referer_header = None, host_header = Some ''localhost:3000''\<rparr>"

definition local_env :: env where
  "local_env = \<lparr>VERCEL_URL = None, CUSTOM_DOMAIN = None\<rparr>"

text \<open>A URL parser that knows one address and rejects every other string.\<close>

definition sample_URL_host :: "string \<Rightarrow> string option" where
  "sample_URL_host s =
     (if s = ''http://localhost:3000/index.html'' then Some ''localhost:3000'' else None)"

definition preflight_allowed :: request where
  "preflight_allowed =
     \<lparr>http_method = ''OPTIONS'', ip = Some ''10.0.0.1'',
      origin_header = Some ''http://localhost:3000'', referer_header = None,
      host_header = Some ''localhost:3000''\<rparr>"

definition preflight_foreign :: request where
  "preflight_foreign =
     \<lparr>http_method = ''OPTIONS'', ip = Some ''10.0.0.1'',
      origin_header = Some ''http://evil.example'', referer_header = None,
      host_header = Some ''localhost:3000''\<rparr>"

definition bad_referer_request :: request where
  "bad_referer_request =
     \<lparr>http_method = ''GET'', ip = Some ''10.0.0.1'', origin_header = None,
      referer_header = Some ''not a url'', host_header = Some ''localhost:3000''\<rparr>"

section \<open>A sample backend and sample requests to the product routes\<close>

definition admin_user :: user where
  "admin_user = \<lparr>user_metadata = Some \<lparr>role = JStr ''admin''\<rparr>, app_metadata = None\<rparr>"

definition plain_user :: user where
  "plain_user = \<lparr>user_metadata = Some \<lparr>role = JStr ''user''\<rparr>, app_metadata = None\<rparr>"

text \<open>A product as a client posts it; the price is the double that \<open>10.005\<close> denotes.\<close>

definition sample_price :: jsnum where
  "sample_price = Finite (5632314283980227 / 562949953421312)"

definition sample_body :: jsval where
  "sample_body =
     JObject
       [(''category_id'', JStr ''books''), (''product-category'', JStr ''Books''),
        (''title'', JStr ''Dune''), (''author'', JStr ''Frank Herbert''),
        (''description'', JStr ''<img onerror=alert(1)>''),
        (''price'', JNum sample_price), (''base_price'', JNum sample_price),
        (''currency_id'', JStr ''USD''), (''available_quantity'', JNum (Finite 1))]"

text \<open>The same product with another price.\<close>

definition priced :: "jsval \<Rightarrow> jsval" where
  "priced p =
     JObject [(''title'', JStr ''Dune''), (''author'', JStr ''Frank Herbert''), (''price'', p)]"

text \<open>A backend that knows two tokens, holds one product, with id 1, and answers an
  insert or update with the row it was given.\<close>

definition sample_service :: supabaseService where
  "sample_service =
     \<lparr>verifyToken = (\<lambda>token.
        if token = ''admin-token'' then (Some admin_user, None)
        else if token = ''user-token'' then (Some plain_user, None)
        else (None, Some (BackendError (Some ''invalid JWT'')))),
      run_query = (\<lambda>q token. (Some [sample_body], None)),
      getProductById = (\<lambda>n token.
        if n = Finite 1 then (Some sample_body, None)
        else (None, Some (BackendError (Some ''no rows'')))),
      createProduct = (\<lambda>productData token. (Some [productData], None)),
      updateProduct = (\<lambda>n productData token. (Some [productData], None)),
      deleteProduct = (\<lambda>n token. None)\<rparr>"

definition sample_request :: "string \<Rightarrow> string \<Rightarrow> jsval \<Rightarrow> api_request" where
  "sample_request token ident b =
     \<lparr>authorization = Some (''Bearer '' @ token), req_user = None, accessToken = None,
      params_id = ident, query_search = None, body = b\<rparr>"

section \<open>Properties of the rate limiter\<close>

lemma limit_reached_int:
  "num_le (Finite (of_int N)) (Finite (of_int c)) \<longleftrightarrow> N \<le> c"
  by (auto simp add: num_le_def)

lemma rateLimit_other:
  "identifier_of q \<noteq> ident \<Longrightarrow> fst (rateLimitByOrigin L W q t s) ident = s ident"
  by (simp add: rateLimitByOrigin_def Let_def split: option.splits)

lemma rateLimit_fresh:
  "s (identifier_of q) = None \<or> (\<exists>r. s (identifier_of q) = Some r \<and> t > resetTime r) \<Longrightarrow>
   rateLimitByOrigin L W q t s =
     (s(identifier_of q \<mapsto> \<lparr>count = 1, resetTime = t + W\<rparr>), Next)"
  by (auto simp add: rateLimitByOrigin_def Let_def split: option.splits)

lemma rateLimit_full:
  "s (identifier_of q) = Some r \<Longrightarrow> t \<le> resetTime r \<Longrightarrow> N \<le> count r \<Longrightarrow>
   rateLimitByOrigin (Finite (of_int N)) W q t s = (s, too_many_requests)"
  by (simp add: rateLimitByOrigin_def Let_def limit_reached_int)

lemma rateLimit_room:
  "s (identifier_of q) = Some r \<Longrightarrow> t \<le> resetTime r \<Longrightarrow> count r < N \<Longrightarrow>
   rateLimitByOrigin (Finite (of_int N)) W q t s =
     (s(identifier_of q \<mapsto> r\<lparr>count := count r + 1\<rparr>), Next)"
  by (simp add: rateLimitByOrigin_def Let_def limit_reached_int)

lemma outcomes_of_Cons:
  "outcomes_of ident ((q, t) # reqs) (out # outs) =
     (if identifier_of q = ident then out # outcomes_of ident reqs outs
      else outcomes_of ident reqs outs)"
  by (simp add: outcomes_of_def)

lemma serve_Cons:
  "snd (serve L W ((q, t) # rest) s) =
     snd (rateLimitByOrigin L W q t s) # snd (serve L W rest (fst (rateLimitByOrigin L W q t s)))"
  by (simp add: split_beta Let_def)

lemma serve_window:
  "s ident = Some r \<Longrightarrow>
   \<forall>(q, t) \<in> set reqs. identifier_of q = ident \<longrightarrow> t \<le> resetTime r \<Longrightarrow>
   outcomes_of ident reqs (snd (serve (Finite (of_int N)) W reqs s)) =
     map (\<lambda>k. if count r + int k < N then Next else too_many_requests)
       [0..<length (filter (\<lambda>(q, t). identifier_of q = ident) reqs)]"
proof (induction reqs arbitrary: s r)
  case Nil
  then show ?case by (simp add: outcomes_of_def)
next
  case (Cons a reqs)
  let ?L = "Finite (of_int N)"
  obtain q t where a: "a = (q, t)" by (cases a)
  show ?case
  proof (cases "identifier_of q = ident")
    case False
    have "fst (rateLimitByOrigin ?L W q t s) ident = Some r"
      using False Cons.prems(1) by (simp add: rateLimit_other)
    from Cons.IH[of "fst (rateLimitByOrigin ?L W q t s)" r, OF this] Cons.prems(2) False
    show ?thesis
      by (simp add: a serve_Cons outcomes_of_Cons del: serve.simps)
  next
    case True
    have t: "t \<le> resetTime r" using Cons.prems(2) True by (simp add: a)
    have rest: "\<forall>(q, t) \<in> set reqs. identifier_of q = ident \<longrightarrow> t \<le> resetTime r"
      using Cons.prems(2) by simp
    show ?thesis
    proof (cases "count r < N")
      case full: False
      have step: "rateLimitByOrigin ?L W q t s = (s, too_many_requests)"
        using rateLimit_full[of s q r t N W] True Cons.prems(1) t full by simp
      have "\<And>k. (if count r + int k < N then Next else too_many_requests) = too_many_requests"
        using full by simp
      with Cons.IH[of s r, OF Cons.prems(1) rest] show ?thesis
        by (simp add: a serve_Cons outcomes_of_Cons step True map_upt_Suc
            del: upt_Suc serve.simps)
    next
      case room: True
      let ?r' = "r\<lparr>count := count r + 1\<rparr>"
      have step: "rateLimitByOrigin ?L W q t s = (s(ident \<mapsto> ?r'), Next)"
        using rateLimit_room[of s q r t N W] True Cons.prems(1) t room by simp
      have s': "(s(ident \<mapsto> ?r')) ident = Some ?r'" by simp
      have rest': "\<forall>(q, t) \<in> set reqs. identifier_of q = ident \<longrightarrow> t \<le> resetTime ?r'"
        using rest by simp
      have ih: "outcomes_of ident reqs (snd (serve ?L W reqs (s(ident \<mapsto> ?r')))) =
          map (\<lambda>k. if count ?r' + int k < N then Next else too_many_requests)
            [0..<length (filter (\<lambda>(q, t). identifier_of q = ident) reqs)]"
        by (rule Cons.IH[of "s(ident \<mapsto> ?r')" ?r', OF s' rest'])
      have first: "(if count r < N then Next else too_many_requests) = Next"
        using room by simp
      show ?thesis
        unfolding a
        by (simp add: serve_Cons outcomes_of_Cons step True map_upt_Suc ih first add.assoc
            del: upt_Suc serve.simps)
    qed
  qed
qed

text \<open>
  Claim C3, for a limit of at least one request. A request that finds no record for its
  identifier, or arrives after the reset time of the record, is passed on and opens a
  window with count 1 that ends \<open>W\<close> later. Of the requests of that identifier that
  follow within the window (requests of other identifiers may come in between), counted
  from the opening one, the first \<open>N\<close> are passed on and every later one is answered
  with 429.
\<close>

theorem rate_limit_window:
  assumes N: "1 \<le> N"
    and q0: "identifier_of q0 = ident"
    and fresh: "s ident = None \<or> (\<exists>r. s ident = Some r \<and> t0 > resetTime r)"
    and within: "\<forall>(q, t) \<in> set reqs. identifier_of q = ident \<longrightarrow> t \<le> t0 + W"
  shows "rateLimitByOrigin (Finite (of_int N)) W q0 t0 s =
           (s(ident \<mapsto> \<lparr>count = 1, resetTime = t0 + W\<rparr>), Next) \<and>
         outcomes_of ident ((q0, t0) # reqs)
             (snd (serve (Finite (of_int N)) W ((q0, t0) # reqs) s)) =
           map (\<lambda>k. if int k < N then Next
                    else Respond 429 (JsonError ''Too many requests''
                           ''Rate limit exceeded. Please try again later.''))
             [0..<Suc (length (filter (\<lambda>(q, t). identifier_of q = ident) reqs))]"
proof -
  let ?L = "Finite (of_int N)"
  let ?r = "\<lparr>count = 1, resetTime = t0 + W\<rparr>"
  let ?s = "s(ident \<mapsto> ?r)"
  have step: "rateLimitByOrigin ?L W q0 t0 s = (?s, Next)"
    using rateLimit_fresh[of s q0 t0 ?L W] fresh q0 by simp
  have s': "?s ident = Some ?r" by simp
  have within': "\<forall>(q, t) \<in> set reqs. identifier_of q = ident \<longrightarrow> t \<le> resetTime ?r"
    using within by simp
  have tail: "outcomes_of ident reqs (snd (serve ?L W reqs ?s)) =
      map (\<lambda>k. if count ?r + int k < N then Next else too_many_requests)
        [0..<length (filter (\<lambda>(q, t). identifier_of q = ident) reqs)]"
    by (rule serve_window[of ?s ident ?r reqs N W, OF s' within'])
  have "outcomes_of ident ((q0, t0) # reqs) (snd (serve ?L W ((q0, t0) # reqs) s)) =
      Next # outcomes_of ident reqs (snd (serve ?L W reqs ?s))"
    by (simp add: serve_Cons outcomes_of_Cons step q0 del: serve.simps)
  also have "\<dots> = map (\<lambda>k. if int k < N then Next else too_many_requests)
             [0..<Suc (length (filter (\<lambda>(q, t). identifier_of q = ident) reqs))]"
  proof -
    have "map (\<lambda>k. if count ?r + int k < N then Next else too_many_requests)
            [0..<length (filter (\<lambda>(q, t). identifier_of q = ident) reqs)] =
          map (\<lambda>k. if int (Suc k) < N then Next else too_many_requests)
            [0..<length (filter (\<lambda>(q, t). identifier_of q = ident) reqs)]"
      by simp
    with N show ?thesis
      by (simp only: tail map_upt_Suc) simp
  qed
  finally show ?thesis using step by (simp add: too_many_requests_def)
qed

theorem rate_limit_window_witness:
  "outcomes_of ''10.0.0.1'' [(client_a, 0), (client_a, 5), (client_a, 9)]
     (snd (serve (Finite 2) 1000 [(client_a, 0), (client_a, 5), (client_a, 9)] Map.empty)) =
   [Next, Next,
    Respond 429 (JsonError ''Too many requests''
      ''Rate limit exceeded. Please try again later.'')]"
proof -
  have h1: "(1::int) \<le> 2" by simp
  have h2: "identifier_of client_a = ''10.0.0.1''"
    by (simp add: identifier_of_def client_a_def)
  have h3: "Map.empty ''10.0.0.1'' = None \<or>
      (\<exists>r. Map.empty ''10.0.0.1'' = Some r \<and> (0::int) > resetTime r)"
    by simp
  have h4: "\<forall>(q, t) \<in> set [(client_a, 5), (client_a, 9)].
      identifier_of q = ''10.0.0.1'' \<longrightarrow> t \<le> (0::int) + 1000"
    by simp
  have rhs: "map (\<lambda>k. if int k < 2 then Next
               else Respond 429 (JsonError ''Too many requests''
                      ''Rate limit exceeded. Please try again later.''))
      [0..<Suc (length (filter (\<lambda>(q, t). identifier_of q = ''10.0.0.1'')
         [(client_a, 5::int), (client_a, 9)]))] =
      [Next, Next, Respond 429 (JsonError ''Too many requests''
        ''Rate limit exceeded. Please try again later.'')]"
    by (simp add: h2)
  have two: "Finite (of_int 2) = Finite 2" by simp
  from rate_limit_window[OF h1 h2 h3 h4] show ?thesis
    by (simp only: rhs two)
qed

text \<open>With a limit of 0 the first request of a window is passed on all the same.\<close>

theorem rate_limit_window_counterexample:
  "snd (serve (Finite 0) 900000 [(client_a, 0)] Map.empty) = [Next]"
  by (simp add: rateLimitByOrigin_def identifier_of_def client_a_def)

lemma rateLimit_count_bound:
  assumes "1 \<le> N" and "\<forall>ident r. s ident = Some r \<longrightarrow> count r \<le> N"
  shows "\<forall>ident r. fst (rateLimitByOrigin (Finite (of_int N)) W q t s) ident = Some r
           \<longrightarrow> count r \<le> N"
  using assms
  by (auto simp add: rateLimitByOrigin_def Let_def limit_reached_int
      split: option.splits if_splits)

lemma serve_fst_Cons:
  "fst (serve L W ((q, t) # rest) s) = fst (serve L W rest (fst (rateLimitByOrigin L W q t s)))"
  by (simp add: split_beta Let_def)

lemma serve_count_bound:
  assumes "1 \<le> N"
  shows "\<forall>ident r. s ident = Some r \<longrightarrow> count r \<le> N \<Longrightarrow>
         \<forall>ident r. fst (serve (Finite (of_int N)) W reqs s) ident = Some r \<longrightarrow> count r \<le> N"
proof (induction reqs arbitrary: s)
  case Nil
  then show ?case by simp
next
  case (Cons a reqs)
  obtain q t where a: "a = (q, t)" by (cases a)
  have "\<forall>ident r. fst (rateLimitByOrigin (Finite (of_int N)) W q t s) ident = Some r
          \<longrightarrow> count r \<le> N"
    by (rule rateLimit_count_bound[OF assms Cons.prems])
  from Cons.IH[OF this] show ?case
    unfolding a serve_fst_Cons .
qed

lemma rateLimit_reject_keeps:
  "snd (rateLimitByOrigin L W q t s) \<noteq> Next \<Longrightarrow> fst (rateLimitByOrigin L W q t s) = s"
  by (auto simp add: rateLimitByOrigin_def Let_def split: option.splits if_splits)

text \<open>
  Claim C10, for a limit that is a whole number of at least one request. Whatever
  requests the limiter has served since the map was empty, no stored count exceeds the
  limit; a request that finds the count at the limit in a live window is answered with
  429 and the map is left as it was; and the map changes only on requests that are
  passed on.
\<close>

theorem rate_limit_count_invariant:
  assumes "1 \<le> N"
  shows "(\<forall>ident r. fst (serve (Finite (of_int N)) W reqs Map.empty) ident = Some r
            \<longrightarrow> count r \<le> N) \<and>
         (\<forall>q t s r. s (identifier_of q) = Some r \<and> t \<le> resetTime r \<and> count r \<ge> N \<longrightarrow>
            rateLimitByOrigin (Finite (of_int N)) W q t s =
              (s, Respond 429 (JsonError ''Too many requests''
                     ''Rate limit exceeded. Please try again later.''))) \<and>
         (\<forall>q t s. fst (rateLimitByOrigin (Finite (of_int N)) W q t s) \<noteq> s \<longrightarrow>
            snd (rateLimitByOrigin (Finite (of_int N)) W q t s) = Next)"
proof (intro conjI)
  show "\<forall>ident r. fst (serve (Finite (of_int N)) W reqs Map.empty) ident = Some r
          \<longrightarrow> count r \<le> N"
    by (rule serve_count_bound[OF assms]) simp
  show "\<forall>q t s r. s (identifier_of q) = Some r \<and> t \<le> resetTime r \<and> count r \<ge> N \<longrightarrow>
            rateLimitByOrigin (Finite (of_int N)) W q t s =
              (s, Respond 429 (JsonError ''Too many requests''
                     ''Rate limit exceeded. Please try again later.''))"
    using rateLimit_full by (simp add: too_many_requests_def)
  show "\<forall>q t s. fst (rateLimitByOrigin (Finite (of_int N)) W q t s) \<noteq> s \<longrightarrow>
            snd (rateLimitByOrigin (Finite (of_int N)) W q t s) = Next"
    using rateLimit_reject_keeps by blast
qed

theorem rate_limit_count_invariant_witness:
  "count \<lparr>count = 2, resetTime = 1000\<rparr> \<le> 2 \<and>
   rateLimitByOrigin (Finite 2) 1000 client_a 9
       [''10.0.0.1'' \<mapsto> \<lparr>count = 2, resetTime = 1000\<rparr>]
     = ([''10.0.0.1'' \<mapsto> \<lparr>count = 2, resetTime = 1000\<rparr>],
        Respond 429 (JsonError ''Too many requests''
          ''Rate limit exceeded. Please try again later.''))"
proof -
  have h: "(1::int) \<le> 2" by simp
  have two: "Finite (of_int 2) = Finite 2" by simp
  note inv = rate_limit_count_invariant[OF h, of 1000 "[(client_a, 0), (client_a, 5), (client_a, 9)]",
      unfolded two]
  have final: "fst (serve (Finite 2) 1000 [(client_a, 0), (client_a, 5), (client_a, 9)] Map.empty)
      ''10.0.0.1'' = Some \<lparr>count = 2, resetTime = 1000\<rparr>"
    by (simp add: rateLimitByOrigin_def identifier_of_def client_a_def num_le_def)
  have a: "count \<lparr>count = 2, resetTime = 1000\<rparr> \<le> 2"
    by (rule inv[THEN conjunct1, rule_format, OF final])
  have live: "[''10.0.0.1'' \<mapsto> \<lparr>count = 2, resetTime = 1000\<rparr>] (identifier_of client_a)
        = Some \<lparr>count = 2, resetTime = 1000\<rparr> \<and>
      (9::int) \<le> resetTime \<lparr>count = 2, resetTime = 1000\<rparr> \<and>
      count \<lparr>count = 2, resetTime = 1000\<rparr> \<ge> 2"
    by (simp add: identifier_of_def client_a_def)
  have b: "rateLimitByOrigin (Finite 2) 1000 client_a 9
       [''10.0.0.1'' \<mapsto> \<lparr>count = 2, resetTime = 1000\<rparr>]
     = ([''10.0.0.1'' \<mapsto> \<lparr>count = 2, resetTime = 1000\<rparr>],
        Respond 429 (JsonError ''Too many requests''
          ''Rate limit exceeded. Please try again later.''))"
    by (rule inv[THEN conjunct2, THEN conjunct1, rule_format,
          where q = client_a and t = 9 and r = "\<lparr>count = 2, resetTime = 1000\<rparr>"
            and s = "[''10.0.0.1'' \<mapsto> \<lparr>count = 2, resetTime = 1000\<rparr>]", OF live])
  from a b show ?thesis by (rule conjI)
qed

text \<open>With a limit of 0 the first request stores a count of 1, and with a limit of 1.5
  the second request is passed on and stores a count of 2.\<close>

theorem rate_limit_count_invariant_counterexample:
  "fst (rateLimitByOrigin (Finite 0) 900000 client_a 0 Map.empty) ''10.0.0.1''
     = Some \<lparr>count = 1, resetTime = 900000\<rparr> \<and> \<not> (1::real) \<le> 0 \<and>
   fst (serve (Finite (3 / 2)) 900000 [(client_a, 0), (client_a, 5)] Map.empty) ''10.0.0.1''
     = Some \<lparr>count = 2, resetTime = 900000\<rparr> \<and> \<not> (2::real) \<le> 3 / 2"
  by (simp add: rateLimitByOrigin_def identifier_of_def client_a_def num_le_def)

text \<open>For any limit, whole or not: a stored count above 1 was reached from a count
  that the limit did not stop.\<close>

lemma rateLimit_count_general:
  assumes "\<forall>ident r. s ident = Some r \<longrightarrow>
             count r \<le> 1 \<or> \<not> num_le L (Finite (of_int (count r - 1)))"
  shows "\<forall>ident r. fst (rateLimitByOrigin L W q t s) ident = Some r \<longrightarrow>
             count r \<le> 1 \<or> \<not> num_le L (Finite (of_int (count r - 1)))"
  using assms
  by (auto simp add: rateLimitByOrigin_def Let_def split: option.splits if_splits)

section \<open>Properties of the origin check\<close>

lemma enhancedCors_cases:
  "enhancedCors e U req =
     (if origin_accepted e U req
      then cors_finish req [(''Access-Control-Allow-Origin'', allow_origin_value req)]
      else if \<not> truthy_str (origin_header req)
              \<and> isFromSameDomain U (referer_header req) req = None
      then ([], Throws) else forbidden_origin)"
  by (auto simp add: enhancedCors_def origin_accepted_def allow_origin_value_def Let_def
      split: option.splits bool.splits)

text \<open>
  Claim C2, as the code has it: the origin check comes first, for every method. An
  OPTIONS request that passes it (its Origin is in the allow-list, or it has no Origin
  and the host of its Referer is its Host) is answered with 200 after the four CORS
  headers are set; an OPTIONS request that does not pass it gets no header and is
  answered with 403, unless parsing its Referer throws.
\<close>

theorem preflight_after_origin_check:
  assumes "http_method req = ''OPTIONS''"
  shows "(origin_accepted e U req \<longrightarrow>
            enhancedCors e U req =
              ((''Access-Control-Allow-Origin'', allow_origin_value req) # cors_headers,
               Respond 200 (PlainText ''OK''))) \<and>
         (\<not> origin_accepted e U req \<longrightarrow>
            enhancedCors e U req = ([], Respond 403 (JsonError ''Forbidden: Invalid origin''
                ''Requests are only allowed from the official frontend''))
            \<or> enhancedCors e U req = ([], Throws))"
  using assms by (simp add: enhancedCors_cases cors_finish_def forbidden_origin_def)

theorem preflight_after_origin_check_witness:
  "enhancedCors local_env sample_URL_host preflight_allowed =
     ((''Access-Control-Allow-Origin'', ''http://localhost:3000'') # cors_headers,
      Respond 200 (PlainText ''OK''))"
proof -
  have m: "http_method preflight_allowed = ''OPTIONS''"
    by (simp add: preflight_allowed_def)
  have ok: "origin_accepted local_env sample_URL_host preflight_allowed"
    by (simp add: origin_accepted_def preflight_allowed_def getAllowedOrigins_def local_env_def)
  have v: "allow_origin_value preflight_allowed = ''http://localhost:3000''"
    by (simp add: allow_origin_value_def preflight_allowed_def)
  from preflight_after_origin_check[OF m, of local_env sample_URL_host] ok v
  show ?thesis by simp
qed

text \<open>A preflight request from an origin outside the allow-list is answered with 403.\<close>

theorem preflight_foreign_origin_counterexample:
  "enhancedCors local_env sample_URL_host preflight_foreign =
     ([], Respond 403 (JsonError ''Forbidden: Invalid origin''
                ''Requests are only allowed from the official frontend''))"
  by (simp add: enhancedCors_def preflight_foreign_def getAllowedOrigins_def local_env_def
      forbidden_origin_def)

text \<open>
  Claim C4 at a request it covers: no Origin, and a Referer that the URL parser rejects.
  The exception of \<open>new URL\<close> is not caught in \<open>isFromSameDomain\<close> or in
  \<open>enhancedCors\<close>, so the middleware sends no 403: the exception escapes to Express.
\<close>

theorem enhancedCors_unparseable_referer:
  assumes "\<not> truthy_str (origin_header req)"
    and "truthy_str (referer_header req)"
    and "U (the (referer_header req)) = None"
  shows "enhancedCors e U req = ([], Throws)"
  using assms by (simp add: enhancedCors_def isFromSameDomain_def)

theorem enhancedCors_unparseable_referer_witness:
  "enhancedCors local_env sample_URL_host bad_referer_request = ([], Throws)"
proof -
  have a: "\<not> truthy_str (origin_header bad_referer_request)"
    by (simp add: bad_referer_request_def)
  have b: "truthy_str (referer_header bad_referer_request)"
    by (simp add: bad_referer_request_def)
  have c: "sample_URL_host (the (referer_header bad_referer_request)) = None"
    by (simp add: bad_referer_request_def sample_URL_host_def)
  show ?thesis
    by (rule enhancedCors_unparseable_referer[of bad_referer_request sample_URL_host local_env, OF a b c])
qed

text \<open>The other requests without a recognised Origin are answered with 403: the Origin
  is present and not in the allow-list, or it is absent and the Referer is absent or
  parses to a host other than the Host header.\<close>

lemma enhancedCors_rejects:
  assumes "http_method req \<noteq> ''OPTIONS''"
    and "\<not> (truthy_str (origin_header req) \<and> the (origin_header req) \<in> set (getAllowedOrigins e))"
    and "truthy_str (origin_header req) \<or> \<not> truthy_str (referer_header req)
         \<or> (\<exists>h. U (the (referer_header req)) = Some h \<and> Some h \<noteq> host_header req)"
  shows "enhancedCors e U req = ([], Respond 403 (JsonError ''Forbidden: Invalid origin''
                ''Requests are only allowed from the official frontend''))"
  using assms
  by (auto simp add: enhancedCors_def isFromSameDomain_def forbidden_origin_def Let_def)

section \<open>Properties of the search-term sanitizer\<close>

lemma to_upper_word: "is_word_char (to_upper c) = is_word_char c"
  by (auto simp add: is_word_char_def to_upper_def Let_def)

lemma keyword_chars:
  "k \<in> set sqlKeywords \<Longrightarrow> k \<noteq> [] \<and> (\<forall>c \<in> set k. is_word_char c)"
  by (auto simp add: sqlKeywords_def is_word_char_def)

lemma keyword_ends:
  assumes "map to_upper mid \<in> set sqlKeywords"
  shows "mid \<noteq> [] \<and> is_word_char (hd mid) \<and> is_word_char (last mid)"
proof -
  from keyword_chars[OF assms] have ne: "mid \<noteq> []"
    and w: "\<forall>c \<in> set mid. is_word_char (to_upper c)" by auto
  from ne w have "is_word_char (to_upper (hd mid))" "is_word_char (to_upper (last mid))"
    by auto
  with ne show ?thesis by (simp add: to_upper_word)
qed

text \<open>The regular expression, tried from a position whose previous character is a word
  character or not, finds exactly the occurrences the spec's wording describes.\<close>

lemma test_from_iff:
  "test_from pw s \<longleftrightarrow>
     (\<exists>pre mid post.
        s = pre @ mid @ post \<and> map to_upper mid \<in> set sqlKeywords \<and>
        (if pre = [] then \<not> pw else \<not> is_word_char (last pre)) \<and>
        (post = [] \<or> \<not> is_word_char (hd post)))"
proof (induction s arbitrary: pw)
  case Nil
  show ?case using keyword_chars by auto
next
  case (Cons c cs)
  show ?case
  proof
    assume "test_from pw (c # cs)"
    then consider
      (here) k where "word_boundary pw (c # cs)" "k \<in> set sqlKeywords" "keyword_here k (c # cs)"
        "word_boundary (is_word_char (last (take (length k) (c # cs)))) (drop (length k) (c # cs))"
      | (later) "test_from (is_word_char c) cs"
      by auto
    then show "\<exists>pre mid post.
        c # cs = pre @ mid @ post \<and> map to_upper mid \<in> set sqlKeywords \<and>
        (if pre = [] then \<not> pw else \<not> is_word_char (last pre)) \<and>
        (post = [] \<or> \<not> is_word_char (hd post))"
    proof cases
      case here
      let ?mid = "take (length k) (c # cs)"
      let ?post = "drop (length k) (c # cs)"
      have up: "map to_upper ?mid \<in> set sqlKeywords"
        using here(2,3) by (simp add: keyword_here_def)
      from keyword_ends[OF up] have ne: "?mid \<noteq> []" and h: "is_word_char (hd ?mid)"
        and l: "is_word_char (last ?mid)" by auto
      from ne have "hd ?mid = c" by (cases "length k") auto
      with h here(1) have "\<not> pw" by (simp add: word_boundary_def)
      moreover from l here(4) have "?post = [] \<or> \<not> is_word_char (hd ?post)"
        by (auto simp add: word_boundary_def)
      moreover have "c # cs = [] @ ?mid @ ?post" by simp
      ultimately show ?thesis using up by (metis (full_types))
    next
      case later
      then obtain pre mid post where
        p: "cs = pre @ mid @ post" "map to_upper mid \<in> set sqlKeywords"
          "if pre = [] then \<not> is_word_char c else \<not> is_word_char (last pre)"
          "post = [] \<or> \<not> is_word_char (hd post)"
        using Cons.IH[of "is_word_char c"] by blast
      have "c # cs = (c # pre) @ mid @ post" using p(1) by simp
      moreover have "\<not> is_word_char (last (c # pre))" using p(3) by (cases pre) auto
      ultimately show ?thesis using p(2,4) by (metis list.distinct(1))
    qed
  next
    assume "\<exists>pre mid post.
        c # cs = pre @ mid @ post \<and> map to_upper mid \<in> set sqlKeywords \<and>
        (if pre = [] then \<not> pw else \<not> is_word_char (last pre)) \<and>
        (post = [] \<or> \<not> is_word_char (hd post))"
    then obtain pre mid post where
      p: "c # cs = pre @ mid @ post" "map to_upper mid \<in> set sqlKeywords"
        "if pre = [] then \<not> pw else \<not> is_word_char (last pre)"
        "post = [] \<or> \<not> is_word_char (hd post)"
      by blast
    from keyword_ends[OF p(2)] have ne: "mid \<noteq> []" and h: "is_word_char (hd mid)"
      and l: "is_word_char (last mid)" by auto
    show "test_from pw (c # cs)"
    proof (cases pre)
      case Nil
      let ?k = "map to_upper mid"
      have s: "c # cs = mid @ post" using p(1) Nil by simp
      have "hd mid = c" using s ne by (cases mid) auto
      with h p(3) Nil have b1: "word_boundary pw (c # cs)" by (simp add: word_boundary_def)
      have kh: "keyword_here ?k (c # cs)" by (simp add: keyword_here_def s)
      have b2: "word_boundary (is_word_char (last (take (length ?k) (c # cs))))
          (drop (length ?k) (c # cs))"
        using l p(4) by (auto simp add: s word_boundary_def)
      from b1 kh b2 p(2) show ?thesis by auto
    next
      case (Cons c' pre')
      have cs: "cs = pre' @ mid @ post" and c: "c' = c" using p(1) Cons by auto
      have "if pre' = [] then \<not> is_word_char c else \<not> is_word_char (last pre')"
        using p(3) Cons c by (cases pre') auto
      with cs p(2,4) have "test_from (is_word_char c) cs"
        using Cons.IH[of "is_word_char c"] by blast
      then show ?thesis by simp
    qed
  qed
qed

lemma sqlKeywords_test_iff: "sqlKeywords_test s = contains_sql_keyword s"
  unfolding sqlKeywords_test_def contains_sql_keyword_def test_from_iff[of False s]
  by (metis (full_types))

text \<open>
  Claim C1, for the string the code tests: when the cleaned term (the term without the
  characters \<open>; ' " \\<close> and the markers \<open>--\<close>, \<open>/*\<close>, \<open>*/\<close>, trimmed) contains a reserved
  keyword as a whole word, \<open>sanitizeSearchTerm\<close> returns null, the query gets no
  \<open>or\<close> filter and is the query of a request without a search term, and the controller
  answers as it does for such a request.
\<close>

theorem keyword_search_is_unfiltered:
  assumes "contains_sql_keyword (clean_term term)"
  shows "sanitizeSearchTerm term = None \<and>
         or_filter (getProducts_query (Some term)) = None \<and>
         getProducts_query (Some term) = getProducts_query None \<and>
         fst (productController_getProducts svc (req\<lparr>query_search := Some term\<rparr>)) =
         fst (productController_getProducts svc (req\<lparr>query_search := None\<rparr>))"
proof -
  have none: "sanitizeSearchTerm term = None"
    using assms by (simp add: sanitizeSearchTerm_def sqlKeywords_test_iff)
  then have q: "getProducts_query (Some term) = getProducts_query None"
    by (simp add: getProducts_query_def Let_def)
  have "or_filter (getProducts_query None) = None"
    by (simp add: getProducts_query_def)
  moreover have "fst (productController_getProducts svc (req\<lparr>query_search := Some term\<rparr>)) =
         fst (productController_getProducts svc (req\<lparr>query_search := None\<rparr>))"
    by (simp add: q productController_getProducts_def getProducts_def split_beta Let_def
        split: option.splits)
  ultimately show ?thesis using none q by simp
qed

theorem keyword_search_is_unfiltered_witness:
  "sanitizeSearchTerm ''select * from t'' = None \<and>
   or_filter (getProducts_query (Some ''select * from t'')) = None"
proof -
  have "sqlKeywords_test (clean_term ''select * from t'')" by code_simp
  then have "contains_sql_keyword (clean_term ''select * from t'')"
    by (simp add: sqlKeywords_test_iff)
  from keyword_search_is_unfiltered[OF this] show ?thesis by blast
qed

text \<open>A term that contains a keyword as a whole word which the cleaning joins to the
  next word: it is not rejected, and the query is filtered by it.\<close>

theorem keyword_search_counterexample:
  "contains_sql_keyword ''DROP;x'' \<and>
   sanitizeSearchTerm ''DROP;x'' = Some ''DROPx'' \<and>
   or_filter (getProducts_query (Some ''DROP;x'')) =
     Some ''title.ilike.%DROPx%,author.ilike.%DROPx%''"
proof -
  have "sqlKeywords_test ''DROP;x''" by code_simp
  then have "contains_sql_keyword ''DROP;x''" by (simp add: sqlKeywords_test_iff)
  moreover have "sanitizeSearchTerm ''DROP;x'' = Some ''DROPx''" by code_simp
  moreover have "or_filter (getProducts_query (Some ''DROP;x'')) =
     Some ''title.ilike.%DROPx%,author.ilike.%DROPx%''" by code_simp
  ultimately show ?thesis by simp
qed


section \<open>Properties of double arithmetic and of the numeric sanitizer\<close>

lemma binade_up_spec:
  "2 powi e \<le> a \<Longrightarrow> e \<le> 1024 \<Longrightarrow>
   e \<le> binade_up e a \<and> binade_up e a \<le> 1024 \<and> 2 powi (binade_up e a) \<le> a \<and>
   (binade_up e a < 1024 \<longrightarrow> a < 2 powi (binade_up e a + 1))"
proof (induction e a rule: binade_up.induct)
  case (1 e a)
  show ?case
  proof (cases "e < 1024 \<and> 2 powi (e + 1) \<le> a")
    case True
    then have "binade_up e a = binade_up (e + 1) a" by (subst binade_up.simps) simp
    with "1.IH"[OF True] True show ?thesis by simp
  next
    case False
    then have "binade_up e a = e" by (subst binade_up.simps) (simp only: if_False)
    with False "1.prems" show ?thesis by auto
  qed
qed

lemma binade_down_spec:
  "a < 2 powi (e + 1) \<Longrightarrow> - 1022 \<le> e \<Longrightarrow>
   binade_down e a \<le> e \<and> - 1022 \<le> binade_down e a \<and> a < 2 powi (binade_down e a + 1) \<and>
   (- 1022 < binade_down e a \<longrightarrow> 2 powi (binade_down e a) \<le> a)"
proof (induction e a rule: binade_down.induct)
  case (1 e a)
  show ?case
  proof (cases "- 1022 < e \<and> a < 2 powi e")
    case True
    then have "binade_down e a = binade_down (e - 1) a" by (subst binade_down.simps) simp
    with "1.IH"[OF True] True show ?thesis by simp
  next
    case False
    then have "binade_down e a = e" by (subst binade_down.simps) (simp only: if_False)
    with False "1.prems" show ?thesis by auto
  qed
qed

lemma binade_spec:
  "- 1022 \<le> binade a \<and> binade a \<le> 1024 \<and>
   (binade a < 1024 \<longrightarrow> a < 2 powi (binade a + 1)) \<and>
   (- 1022 < binade a \<longrightarrow> 2 powi (binade a) \<le> a)"
proof (cases "1 \<le> a")
  case True
  have "(2::real) powi 0 \<le> a" using True by simp
  from binade_up_spec[OF this, simplified] True show ?thesis
    by (simp add: binade_def)
next
  case False
  have "a < 2 powi (- 1 + 1)" using False by simp
  from binade_down_spec[OF this] False show ?thesis
    by (simp add: binade_def) 
qed

lemma binade_unique:
  assumes "2 powi e \<le> a" "a < 2 powi (e + 1)" "- 1022 \<le> e" "e \<le> 1023"
  shows "binade a = e"
proof (rule ccontr)
  assume ne: "binade a \<noteq> e"
  note s = binade_spec[of a]
  show False
  proof (cases "binade a < e")
    case True
    then have "a < 2 powi (binade a + 1)" using s assms(4) by simp
    also have "\<dots> \<le> 2 powi e"
      using True by (intro power_int_increasing) auto
    finally show False using assms(1) by simp
  next
    case False
    with ne have gt: "e < binade a" by simp
    then have "2 powi (e + 1) \<le> (2::real) powi (binade a)"
      by (intro power_int_increasing) auto
    also have "\<dots> \<le> a" using s gt assms(3) by simp
    finally show False using assms(2) by simp
  qed
qed

lemma binade_subnormal:
  assumes "a < 2 powi (- 1022)"
  shows "binade a = - 1022"
proof (rule ccontr)
  assume "binade a \<noteq> - 1022"
  with binade_spec[of a] have gt: "- 1022 < binade a" and le: "2 powi (binade a) \<le> a"
    by auto
  have "(2::real) powi (- 1022) \<le> 2 powi (binade a)"
    using gt by (intro power_int_increasing) auto
  with le assms show False by simp
qed

lemma round_half_even_bound: "\<bar>of_int (round_half_even z) - z\<bar> \<le> 1 / 2"
  unfolding round_half_even_def Let_def by (auto simp add: abs_le_iff)

lemma round_in_binade:
  fixes a :: real
  assumes "a < 2 powi (e + 1)"
  defines "q \<equiv> 2 powi (e - 52)"
  defines "r \<equiv> of_int (round_half_even (a / q)) * q"
  shows "r \<le> 2 powi (e + 1) \<and> \<bar>r - a\<bar> \<le> 2 powi (e - 53)"
proof -
  have q: "0 < q" by (simp add: q_def)
  have "(2::real) powi ((e - 52) + 53) = 2 powi (e - 52) * 2 powi 53"
    by (rule power_int_add) simp
  moreover have "(e - 52) + 53 = e + 1" by simp
  ultimately have split: "(2::real) powi (e + 1) = q * 2 powi 53"
    unfolding q_def by simp
  have half: "(2::real) powi (e - 53) = q / 2"
    unfolding q_def using power_int_add[of "2::real" "e - 52" "- 1"]
    by (simp add: power_int_minus field_simps)
  define z where "z = a / q"
  define m where "m = round_half_even z"
  have a: "a = z * q" using q by (simp add: z_def)
  have "z * q < 2 powi 53 * q" using assms(1) a split by (simp add: mult.commute)
  then have z: "z < 2 powi 53" using q by simp
  have b: "\<bar>of_int m - z\<bar> \<le> 1 / 2" unfolding m_def by (rule round_half_even_bound)
  have "of_int m < (2::real) powi 53 + 1 / 2" using b z by linarith
  then have "of_int m < (9007199254740992::real) + 1 / 2" by simp
  then have "m \<le> 9007199254740992" by linarith
  then have "(of_int m :: real) \<le> 2 powi 53" by simp
  then have "of_int m * q \<le> 2 powi 53 * q" using q by (intro mult_right_mono) auto
  moreover have rm: "r = of_int m * q" by (simp add: r_def m_def z_def)
  ultimately have 1: "r \<le> 2 powi (e + 1)"
    by (simp add: split mult.commute)
  have "r - a = (of_int m - z) * q"
    by (simp add: rm a algebra_simps)
  then have "\<bar>r - a\<bar> = \<bar>of_int m - z\<bar> * q" using q by (simp add: abs_mult)
  also have "\<dots> \<le> (1 / 2) * q" using b q by (intro mult_right_mono) auto
  finally have 2: "\<bar>r - a\<bar> \<le> 2 powi (e - 53)" by (simp add: half)
  from 1 2 show ?thesis by simp
qed

lemma to_double_abs:
  assumes "\<bar>x\<bar> < 2 powi (binade \<bar>x\<bar> + 1)" "binade \<bar>x\<bar> \<le> 1022"
  shows "\<exists>r. to_double x = Finite (if 0 \<le> x then r else - r) \<and>
             r = of_int (round_half_even (\<bar>x\<bar> / 2 powi (binade \<bar>x\<bar> - 52))) * 2 powi (binade \<bar>x\<bar> - 52) \<and>
             \<bar>r - \<bar>x\<bar>\<bar> \<le> 2 powi (binade \<bar>x\<bar> - 53)"
proof -
  let ?e = "binade \<bar>x\<bar>"
  let ?r = "real_of_int (round_half_even (\<bar>x\<bar> / 2 powi (?e - 52))) * 2 powi (?e - 52)"
  from round_in_binade[OF assms(1)]
  have le: "?r \<le> 2 powi (?e + 1)" and err: "\<bar>?r - \<bar>x\<bar>\<bar> \<le> 2 powi (?e - 53)" by auto
  have "(2::real) powi (?e + 1) \<le> 2 powi 1023"
    using assms(2) by (intro power_int_increasing) auto
  also have "\<dots> < (2::real) powi 1024" by (intro power_int_strict_increasing) auto
  finally have "\<not> 2 powi 1024 \<le> ?r" using le by simp
  then have "to_double x = Finite (if 0 \<le> x then ?r else - ?r)"
    by (simp add: to_double_def Let_def)
  with err show ?thesis by blast
qed

text \<open>Rounding within a known binade, for computing with concrete numbers.\<close>

lemma to_double_in_binade:
  assumes "2 powi e \<le> \<bar>x\<bar>" "\<bar>x\<bar> < 2 powi (e + 1)" "- 1022 \<le> e" "e \<le> 1022"
  shows "to_double x =
     Finite (if 0 \<le> x then of_int (round_half_even (\<bar>x\<bar> / 2 powi (e - 52))) * 2 powi (e - 52)
             else - (of_int (round_half_even (\<bar>x\<bar> / 2 powi (e - 52))) * 2 powi (e - 52)))"
proof -
  have e: "binade \<bar>x\<bar> = e" using assms by (intro binade_unique) auto
  from to_double_abs[of x] assms e show ?thesis by auto
qed

text \<open>The rounding error below a power of two.\<close>

lemma to_double_error:
  assumes "\<bar>x\<bar> < 2 powi k" "- 1021 \<le> k" "k \<le> 1023"
  shows "\<exists>r. to_double x = Finite r \<and> \<bar>r - x\<bar> \<le> 2 powi (k - 54)"
proof -
  let ?e = "binade \<bar>x\<bar>"
  note s = binade_spec[of "\<bar>x\<bar>"]
  have ek: "?e \<le> k - 1"
  proof (rule ccontr)
    assume "\<not> ?e \<le> k - 1"
    then have ke: "k \<le> ?e" by simp
    then have "- 1022 < ?e" using assms(2) by simp
    then have "2 powi ?e \<le> \<bar>x\<bar>" using s by simp
    moreover have "(2::real) powi k \<le> 2 powi ?e"
      using ke by (intro power_int_increasing) auto
    ultimately show False using assms(1) by simp
  qed
  then have up: "\<bar>x\<bar> < 2 powi (?e + 1)" "?e \<le> 1022" using s assms(3) by auto
  from to_double_abs[OF up] obtain r where
    r: "to_double x = Finite (if 0 \<le> x then r else - r)" "\<bar>r - \<bar>x\<bar>\<bar> \<le> 2 powi (?e - 53)"
    by blast
  have "(2::real) powi (?e - 53) \<le> 2 powi (k - 54)"
    using ek by (intro power_int_increasing) auto
  with r(2) have "\<bar>(if 0 \<le> x then r else - r) - x\<bar> \<le> 2 powi (k - 54)"
    by (auto simp add: abs_if split: if_splits)
  with r(1) show ?thesis by blast
qed

lemma parseFloat_finite_not_guarded:
  assumes "parseFloat input = Some (Finite x)"
  shows "input \<noteq> JNull \<and> input \<noteq> JUndefined \<and> input \<noteq> JStr []"
  using assms
  by (auto simp add: parseFloat_def parseFloat_string_def signed_literal_def
      unsigned_literal_def)

lemma round_cents:
  assumes "- 999999999 \<le> x" "x \<le> 999999999"
  shows "\<exists>y n r. js_times (Finite x) (Finite 100) = Finite y \<and>
           Math_round (Finite y) = Finite (of_int n) \<and>
           js_divide (Finite (of_int n)) (Finite 100) = Finite r \<and>
           \<bar>of_int n - 100 * x\<bar> \<le> 1 / 2 + 1 / 2 ^ 17 \<and>
           \<bar>r - of_int n / 100\<bar> \<le> 1 / 2 ^ 24"
proof -
  have "\<bar>x * 100\<bar> < 2 powi 37" using assms by (simp add: abs_less_iff)
  from to_double_error[OF this] obtain y where
    y: "to_double (x * 100) = Finite y" "\<bar>y - x * 100\<bar> \<le> 2 powi (37 - 54)" by auto
  define n where "n = \<lfloor>y + 1 / 2\<rfloor>"
  have ny: "\<bar>of_int n - y\<bar> \<le> 1 / 2" unfolding n_def by linarith
  have yb: "\<bar>y - x * 100\<bar> \<le> 1 / 2 ^ 17" using y(2) by (simp add: power_int_minus divide_simps)
  have nx: "\<bar>of_int n - 100 * x\<bar> \<le> 1 / 2 + 1 / 2 ^ 17" using ny yb by linarith
  have "(1::real) / 2 + 1 / 2 ^ 17 \<le> 1" by simp
  with nx have "\<bar>real_of_int n - 100 * x\<bar> \<le> 1" by linarith
  with assms have "\<bar>real_of_int n\<bar> \<le> 99999999901" by linarith
  moreover have "\<bar>real_of_int n / 100\<bar> = \<bar>real_of_int n\<bar> / 100" by simp
  moreover have "(2::real) powi 30 = 1073741824" by simp
  ultimately have "\<bar>of_int n / 100\<bar> < (2::real) powi 30" by linarith
  from to_double_error[OF this] obtain r where
    r: "to_double (of_int n / 100) = Finite r" "\<bar>r - of_int n / 100\<bar> \<le> 2 powi (30 - 54)"
    by auto
  have rb: "\<bar>r - of_int n / 100\<bar> \<le> 1 / 2 ^ 24"
    using r(2) by (simp add: power_int_minus divide_simps)
  have "js_times (Finite x) (Finite 100) = Finite y" using y(1) by simp
  moreover have "Math_round (Finite y) = Finite (of_int n)" by (simp add: n_def)
  moreover have "js_divide (Finite (of_int n)) (Finite 100) = Finite r" using r(1) by simp
  ultimately show ?thesis using nx rb by blast
qed

text \<open>
  Claim C8, with the arithmetic of doubles. \<open>sanitizeNumber\<close> returns null for null,
  undefined and the empty string, for an input that parses to \<open>NaN\<close> or to an infinity,
  and for one that parses to a number above 999,999,999 or below -999,999,999. For an
  input that parses to a finite number \<open>x\<close> in the range it returns
  \<open>Math.round(x * 100) / 100\<close>: with \<open>n\<close> the whole number that \<open>Math.round\<close> makes of
  the double product, which lies within 1/2 + 2^-17 of \<open>100 x\<close>, the result is the
  double nearest to \<open>n / 100\<close>, which lies within 2^-24 of it.
\<close>

theorem sanitizeNumber_cases:
  "(input = JNull \<or> input = JUndefined \<or> input = JStr [] \<longrightarrow>
      sanitizeNumber input = Returns None) \<and>
   (parseFloat input = Some NaN \<or> parseFloat input = Some PosInfinity
      \<or> parseFloat input = Some NegInfinity \<longrightarrow> sanitizeNumber input = Returns None) \<and>
   (\<forall>x. parseFloat input = Some (Finite x) \<and> (x > 999999999 \<or> x < - 999999999) \<longrightarrow>
      sanitizeNumber input = Returns None) \<and>
   (\<forall>x. parseFloat input = Some (Finite x) \<and> - 999999999 \<le> x \<and> x \<le> 999999999 \<longrightarrow>
      (\<exists>y n r.
         js_times (Finite x) (Finite 100) = Finite y \<and>
         Math_round (Finite y) = Finite (of_int n) \<and>
         js_divide (Finite (of_int n)) (Finite 100) = Finite r \<and>
         sanitizeNumber input = Returns (Some (Finite r)) \<and>
         \<bar>of_int n - 100 * x\<bar> \<le> 1 / 2 + 1 / 2 ^ 17 \<and>
         \<bar>r - of_int n / 100\<bar> \<le> 1 / 2 ^ 24))"
proof (intro conjI allI impI)
  assume "input = JNull \<or> input = JUndefined \<or> input = JStr []"
  then show "sanitizeNumber input = Returns None" by (auto simp add: sanitizeNumber_def)
next
  assume "parseFloat input = Some NaN \<or> parseFloat input = Some PosInfinity
      \<or> parseFloat input = Some NegInfinity"
  then show "sanitizeNumber input = Returns None"
    by (auto simp add: sanitizeNumber_def isNaN_def)
next
  fix x
  assume "parseFloat input = Some (Finite x) \<and> (x > 999999999 \<or> x < - 999999999)"
  then show "sanitizeNumber input = Returns None"
    by (auto simp add: sanitizeNumber_def isNaN_def)
next
  fix x
  assume a: "parseFloat input = Some (Finite x) \<and> - 999999999 \<le> x \<and> x \<le> 999999999"
  then have g: "input \<noteq> JNull \<and> input \<noteq> JUndefined \<and> input \<noteq> JStr []"
    using parseFloat_finite_not_guarded by blast
  from a round_cents[of x] obtain y n r where
    c: "js_times (Finite x) (Finite 100) = Finite y"
      "Math_round (Finite y) = Finite (of_int n)"
      "js_divide (Finite (of_int n)) (Finite 100) = Finite r"
      "\<bar>of_int n - 100 * x\<bar> \<le> 1 / 2 + 1 / 2 ^ 17"
      "\<bar>r - of_int n / 100\<bar> \<le> 1 / 2 ^ 24"
    by blast
  have "sanitizeNumber input = Returns (Some (Finite r))"
    using a g c(1,2,3) by (simp add: sanitizeNumber_def isNaN_def)
  with c show "\<exists>y n r.
         js_times (Finite x) (Finite 100) = Finite y \<and>
         Math_round (Finite y) = Finite (of_int n) \<and>
         js_divide (Finite (of_int n)) (Finite 100) = Finite r \<and>
         sanitizeNumber input = Returns (Some (Finite r)) \<and>
         \<bar>of_int n - 100 * x\<bar> \<le> 1 / 2 + 1 / 2 ^ 17 \<and>
         \<bar>r - of_int n / 100\<bar> \<le> 1 / 2 ^ 24"
    by blast
qed

lemmas literal_defs =
  parseFloat_def parseFloat_string_def signed_literal_def unsigned_literal_def
  exponent_part_def is_digit_def is_space_def digits_value_def digit_of_def

lemma parse_12_5abc: "parseFloat (JStr ''12.5abc'') = Some (Finite 12.5)"
proof -
  have "parseFloat (JStr ''12.5abc'') = Some (to_double 12.5)"
    by (simp add: literal_defs)
  moreover have "to_double 12.5 = Finite 12.5"
    by (subst to_double_in_binade[of 3]) (simp_all add: round_half_even_def)
  ultimately show ?thesis by simp
qed

theorem sanitizeNumber_cases_witness:
  "sanitizeNumber (JStr ''12.5abc'') = Returns (Some (Finite 12.5)) \<and>
   sanitizeNumber JNull = Returns None"
proof -
  have h: "parseFloat (JStr ''12.5abc'') = Some (Finite 12.5) \<and>
      - 999999999 \<le> (12.5::real) \<and> (12.5::real) \<le> 999999999"
    using parse_12_5abc by simp
  from sanitizeNumber_cases[of "JStr ''12.5abc''", THEN conjunct2, THEN conjunct2, THEN conjunct2,
      rule_format, OF h]
  obtain y n r where
    c: "js_times (Finite 12.5) (Finite 100) = Finite y"
      "Math_round (Finite y) = Finite (of_int n)"
      "js_divide (Finite (of_int n)) (Finite 100) = Finite r"
      "sanitizeNumber (JStr ''12.5abc'') = Returns (Some (Finite r))"
    by blast
  have "to_double (12.5 * 100) = Finite 1250"
    by (subst to_double_in_binade[of 10]) (simp_all add: round_half_even_def)
  with c(1) have y: "y = 1250" by simp
  with c(2) have n: "real_of_int n = 1250" by simp
  have "to_double (1250 / 100) = Finite 12.5"
    by (subst to_double_in_binade[of 3]) (simp_all add: round_half_even_def)
  with c(3) n have "r = 12.5" by simp
  with c(4) have 1: "sanitizeNumber (JStr ''12.5abc'') = Returns (Some (Finite 12.5))" by simp
  have 2: "sanitizeNumber JNull = Returns None"
    using sanitizeNumber_cases[of JNull, THEN conjunct1] by simp
  from 1 2 show ?thesis by (rule conjI)
qed

text \<open>
  The string \<open>2.675\<close> parses to a double just below 2.675, whose product with 100 rounds
  to the double 267.5: the result is the double of 2.68, although 2.67 is nearer to the
  parsed number.
\<close>

theorem sanitizeNumber_counterexample:
  "parseFloat (JStr ''2.675'') = Some (Finite (3011782250804019 / 1125899906842624)) \<and>
   sanitizeNumber (JStr ''2.675'') =
     Returns (Some (Finite (6034823500676465 / 2251799813685248))) \<and>
   \<bar>3011782250804019 / 1125899906842624 - 267 / 100\<bar> <
     \<bar>3011782250804019 / 1125899906842624 - 6034823500676465 / (2251799813685248::real)\<bar>"
proof -
  have "parseFloat (JStr ''2.675'') = Some (to_double (2675 / 1000))"
    by (simp add: literal_defs)
  moreover have "to_double (2675 / 1000) = Finite (3011782250804019 / 1125899906842624)"
    by (subst to_double_in_binade[of 1]) (simp_all add: round_half_even_def)
  ultimately have p: "parseFloat (JStr ''2.675'')
      = Some (Finite (3011782250804019 / 1125899906842624))" by simp
  have t: "to_double (3011782250804019 / 1125899906842624 * 100) = Finite (535 / 2)"
    by (subst to_double_in_binade[of 8]) (simp_all add: round_half_even_def)
  have d: "to_double (268 / 100) = Finite (6034823500676465 / 2251799813685248)"
    by (subst to_double_in_binade[of 1]) (simp_all add: round_half_even_def)
  have "sanitizeNumber (JStr ''2.675'') =
     Returns (Some (Finite (6034823500676465 / 2251799813685248)))"
    using t d by (simp add: sanitizeNumber_def p isNaN_def)
  with p show ?thesis by simp
qed

section \<open>Properties of the authorization middleware and the product controller\<close>

lemma requireAuth_accepts:
  assumes "authorization req = Some (''Bearer '' @ token)"
    and "verifyToken svc token = (Some u, None)"
  shows "requireAuth svc req = (req\<lparr>req_user := Some u, accessToken := Some token\<rparr>, Next)"
  using assms by (simp add: requireAuth_def)

lemma create_accepted:
  assumes "get_prop (body req) ''title'' = Some t" "truthy t"
    and "get_prop (body req) ''author'' = Some a" "truthy a"
    and "get_prop (body req) ''price'' = Some p" "truthy p" "le_zero p = Some False"
  shows "productController_createProduct svc req =
     (created (createProduct svc (body req) (accessToken req)),
      [CreateProduct (body req) (accessToken req)])"
  using assms
  by (simp add: productController_createProduct_def call_createProduct_def Let_def)

lemma positive_number_not_le_zero:
  "0 < p \<Longrightarrow> truthy (JNum (Finite p)) \<and> le_zero (JNum (Finite p)) = Some False"
  by (simp add: truthy_num_def le_zero_def ToNumber_def num_le_def)

text \<open>
  Claim C5. \<open>requireAdmin\<close> answers 401 when no user is attached; otherwise the role is
  \<open>user_metadata.role\<close> when that is truthy and \<open>app_metadata.role\<close> when it is not, and
  the middleware answers 403 unless the role is the string \<open>admin\<close>, in which case it
  calls the next handler. On \<open>POST /products\<close>, a request whose token resolves to a user
  without the admin role gets 403 and the controller makes no service call; with the
  admin role, a payload with title, author and a positive price, and a backend that
  reports no error on the insert, the answer is 201.
\<close>

theorem requireAdmin_gate:
  "(req_user req = None \<longrightarrow>
      requireAdmin req = Respond 401 (JsonError ''Unauthorized'' ''Authentication required'')) \<and>
   (\<forall>u. req_user req = Some u \<longrightarrow>
      requireAdmin req =
        (if (if truthy (role_of (user_metadata u)) then role_of (user_metadata u)
             else role_of (app_metadata u)) = JStr ''admin''
         then Next else Respond 403 (JsonError ''Forbidden'' ''Admin access required''))) \<and>
   (\<forall>u token.
      authorization req = Some (''Bearer '' @ token) \<and> verifyToken svc token = (Some u, None) \<and>
      js_or (role_of (user_metadata u)) (role_of (app_metadata u)) \<noteq> JStr ''admin'' \<longrightarrow>
      map_option status (fst (post_products svc req)) = Some 403 \<and>
      snd (post_products svc req) = []) \<and>
   (\<forall>u token t a p.
      authorization req = Some (''Bearer '' @ token) \<and> verifyToken svc token = (Some u, None) \<and>
      js_or (role_of (user_metadata u)) (role_of (app_metadata u)) = JStr ''admin'' \<and>
      get_prop (body req) ''title'' = Some t \<and> truthy t \<and>
      get_prop (body req) ''author'' = Some a \<and> truthy a \<and>
      get_prop (body req) ''price'' = Some (JNum (Finite p)) \<and> 0 < p \<and>
      snd (createProduct svc (body req) (Some token)) = None \<longrightarrow>
      map_option status (fst (post_products svc req)) = Some 201 \<and>
      snd (post_products svc req) = [CreateProduct (body req) (Some token)])"
proof (intro conjI allI impI)
  assume "req_user req = None"
  then show "requireAdmin req = Respond 401 (JsonError ''Unauthorized'' ''Authentication required'')"
    by (simp add: requireAdmin_def)
next
  fix u assume "req_user req = Some u"
  then show "requireAdmin req =
        (if (if truthy (role_of (user_metadata u)) then role_of (user_metadata u)
             else role_of (app_metadata u)) = JStr ''admin''
         then Next else Respond 403 (JsonError ''Forbidden'' ''Admin access required''))"
    by (simp add: requireAdmin_def js_or_def Let_def)
next
  fix u token
  assume a: "authorization req = Some (''Bearer '' @ token) \<and> verifyToken svc token = (Some u, None) \<and>
      js_or (role_of (user_metadata u)) (role_of (app_metadata u)) \<noteq> JStr ''admin''"
  then have auth: "requireAuth svc req = (req\<lparr>req_user := Some u, accessToken := Some token\<rparr>, Next)"
    by (simp add: requireAuth_accepts)
  have adm: "requireAdmin (req\<lparr>req_user := Some u, accessToken := Some token\<rparr>)
      = Respond 403 (JsonError ''Forbidden'' ''Admin access required'')"
    using a by (simp add: requireAdmin_def Let_def)
  show "map_option status (fst (post_products svc req)) = Some 403"
    by (simp add: post_products_def admin_route_def auth adm)
  show "snd (post_products svc req) = []"
    by (simp add: post_products_def admin_route_def auth adm)
next
  fix u token t a p
  assume a: "authorization req = Some (''Bearer '' @ token) \<and> verifyToken svc token = (Some u, None) \<and>
      js_or (role_of (user_metadata u)) (role_of (app_metadata u)) = JStr ''admin'' \<and>
      get_prop (body req) ''title'' = Some t \<and> truthy t \<and>
      get_prop (body req) ''author'' = Some a \<and> truthy a \<and>
      get_prop (body req) ''price'' = Some (JNum (Finite p)) \<and> 0 < p \<and>
      snd (createProduct svc (body req) (Some token)) = None"
  let ?req = "req\<lparr>req_user := Some u, accessToken := Some token\<rparr>"
  from a have auth: "requireAuth svc req = (?req, Next)"
    by (simp add: requireAuth_accepts)
  have adm: "requireAdmin ?req = Next"
    using a by (simp add: requireAdmin_def Let_def)
  have "productController_createProduct svc ?req =
     (created (createProduct svc (body ?req) (accessToken ?req)),
      [CreateProduct (body ?req) (accessToken ?req)])"
    using a positive_number_not_le_zero[of p]
    by (intro create_accepted[of ?req t a "JNum (Finite p)"]) simp_all
  then have ctl: "status (fst (productController_createProduct svc ?req)) = 201 \<and>
      snd (productController_createProduct svc ?req) = [CreateProduct (body req) (Some token)]"
    using a by (simp add: created_def)
  show "map_option status (fst (post_products svc req)) = Some 201"
    using ctl by (simp add: post_products_def admin_route_def auth adm split_beta)
  show "snd (post_products svc req) = [CreateProduct (body req) (Some token)]"
    using ctl by (simp add: post_products_def admin_route_def auth adm split_beta)
qed

lemma sample_tokens:
  "verifyToken sample_service ''admin-token'' = (Some admin_user, None)"
  "verifyToken sample_service ''user-token'' = (Some plain_user, None)"
  by (simp_all add: sample_service_def)

lemma sample_roles:
  "js_or (role_of (user_metadata admin_user)) (role_of (app_metadata admin_user)) = JStr ''admin''"
  "js_or (role_of (user_metadata plain_user)) (role_of (app_metadata plain_user)) \<noteq> JStr ''admin''"
  by (simp_all add: admin_user_def plain_user_def js_or_def)

lemma sample_body_fields:
  "get_prop sample_body ''title'' = Some (JStr ''Dune'')"
  "get_prop sample_body ''author'' = Some (JStr ''Frank Herbert'')"
  "get_prop sample_body ''price'' = Some (JNum sample_price)"
  "get_prop sample_body ''description'' = Some (JStr ''<img onerror=alert(1)>'')"
  by (simp_all add: sample_body_def)

theorem requireAdmin_gate_witness:
  "map_option status (fst (post_products sample_service
      (sample_request ''user-token'' [] sample_body))) = Some 403 \<and>
   map_option status (fst (post_products sample_service
      (sample_request ''admin-token'' [] sample_body))) = Some 201"
proof -
  have u: "authorization (sample_request ''user-token'' [] sample_body)
        = Some (''Bearer '' @ ''user-token'') \<and>
      verifyToken sample_service ''user-token'' = (Some plain_user, None) \<and>
      js_or (role_of (user_metadata plain_user)) (role_of (app_metadata plain_user))
        \<noteq> JStr ''admin''"
    using sample_tokens sample_roles by (simp add: sample_request_def)
  have a: "authorization (sample_request ''admin-token'' [] sample_body)
        = Some (''Bearer '' @ ''admin-token'') \<and>
      verifyToken sample_service ''admin-token'' = (Some admin_user, None) \<and>
      js_or (role_of (user_metadata admin_user)) (role_of (app_metadata admin_user))
        = JStr ''admin'' \<and>
      get_prop (body (sample_request ''admin-token'' [] sample_body)) ''title''
        = Some (JStr ''Dune'') \<and> truthy (JStr ''Dune'') \<and>
      get_prop (body (sample_request ''admin-token'' [] sample_body)) ''author''
        = Some (JStr ''Frank Herbert'') \<and> truthy (JStr ''Frank Herbert'') \<and>
      get_prop (body (sample_request ''admin-token'' [] sample_body)) ''price''
        = Some (JNum (Finite (5632314283980227 / 562949953421312))) \<and>
      (0::real) < 5632314283980227 / 562949953421312 \<and>
      snd (createProduct sample_service (body (sample_request ''admin-token'' [] sample_body))
             (Some ''admin-token'')) = None"
    using sample_tokens sample_roles sample_body_fields
    by (simp add: sample_request_def sample_service_def sample_price_def)
  note g = requireAdmin_gate[THEN conjunct2, THEN conjunct2]
  from g[THEN conjunct1, rule_format, OF u] g[THEN conjunct2, rule_format, OF a]
  show ?thesis by simp
qed

lemma invalid_id_iff: "invalid_id n \<longleftrightarrow> \<not> num_less (Finite 0) n"
  by (cases n) (auto simp add: invalid_id_def isNaN_def num_le_def)

text \<open>
  Claim C6. When the id parses to a positive number and the existence lookup returns no
  row (\<open>null\<close>, or any falsy value), \<open>deleteProduct\<close> answers 404 and its only service
  call is the lookup; and whenever the handler calls \<open>supabaseService.deleteProduct\<close>, the
  id is a positive number for which the lookup returned a row.
\<close>

theorem delete_missing_product:
  "(\<forall>n. parseInt (params_id req) = n \<and> num_less (Finite 0) n \<and>
        not_existing (fst (getProductById svc n (accessToken req))) \<longrightarrow>
        status (fst (productController_deleteProduct svc req)) = 404 \<and>
        snd (productController_deleteProduct svc req) = [GetProductById n (accessToken req)]) \<and>
   (\<forall>m token. DeleteProduct m token \<in> set (snd (productController_deleteProduct svc req)) \<longrightarrow>
        parseInt (params_id req) = m \<and> num_less (Finite 0) m \<and> token = accessToken req \<and>
        (\<exists>row. fst (getProductById svc m (accessToken req)) = Some row \<and> truthy row))"
proof (intro conjI allI impI)
  fix n
  assume a: "parseInt (params_id req) = n \<and> num_less (Finite 0) n \<and>
        not_existing (fst (getProductById svc n (accessToken req)))"
  then show "status (fst (productController_deleteProduct svc req)) = 404"
    by (simp add: productController_deleteProduct_def invalid_id_iff product_not_found_def
        json_error_def call_getProductById_def split_beta Let_def)
  from a show "snd (productController_deleteProduct svc req) = [GetProductById n (accessToken req)]"
    by (simp add: productController_deleteProduct_def invalid_id_iff product_not_found_def
        json_error_def call_getProductById_def split_beta Let_def)
next
  fix m token
  assume c: "DeleteProduct m token \<in> set (snd (productController_deleteProduct svc req))"
  let ?n = "parseInt (params_id req)"
  from c have v: "\<not> invalid_id ?n"
    by (auto simp add: productController_deleteProduct_def Let_def split: if_splits)
  from c v have e: "\<not> not_existing (fst (getProductById svc ?n (accessToken req)))"
    by (auto simp add: productController_deleteProduct_def call_getProductById_def
        split_beta Let_def split: if_splits)
  from c v e have m: "m = ?n \<and> token = accessToken req"
    by (auto simp add: productController_deleteProduct_def call_getProductById_def
        call_deleteProduct_def split_beta Let_def split: if_splits option.splits)
  from e obtain row where
    r: "fst (getProductById svc ?n (accessToken req)) = Some row" "truthy row"
    by (cases "fst (getProductById svc ?n (accessToken req))") auto
  from m show "parseInt (params_id req) = m" by simp
  from m v show "num_less (Finite 0) m" by (simp add: invalid_id_iff)
  from m show "token = accessToken req" by simp
  from m r show "\<exists>row. fst (getProductById svc m (accessToken req)) = Some row \<and> truthy row"
    by simp
qed

lemma parseInt_7: "parseInt ''7'' = Finite 7"
proof -
  have "parseInt ''7'' = to_double 7"
    by (simp add: parseInt_def is_digit_def is_space_def digits_value_def digit_of_def)
  moreover have "to_double 7 = Finite 7"
    by (subst to_double_in_binade[of 2]) (simp_all add: round_half_even_def)
  ultimately show ?thesis by simp
qed

theorem delete_missing_product_witness:
  "status (fst (productController_deleteProduct sample_service
      (sample_request ''admin-token'' ''7'' sample_body))) = 404 \<and>
   snd (productController_deleteProduct sample_service
      (sample_request ''admin-token'' ''7'' sample_body)) = [GetProductById (Finite 7) None]"
proof -
  have h: "parseInt (params_id (sample_request ''admin-token'' ''7'' sample_body)) = Finite 7 \<and>
      num_less (Finite 0) (Finite 7) \<and>
      not_existing (fst (getProductById sample_service (Finite 7)
        (accessToken (sample_request ''admin-token'' ''7'' sample_body))))"
    using parseInt_7 by (simp add: sample_request_def sample_service_def)
  from delete_missing_product[THEN conjunct1, rule_format, OF h] show ?thesis
    by (simp add: sample_request_def)
qed

text \<open>
  Claim C7, with the body as the JSON parser leaves it. With a price that is a number
  and is zero or negative, \<open>createProduct\<close> answers 400 and makes no service call. Whenever
  it calls \<open>supabaseService.createProduct\<close>, title, author and price are truthy and the
  price, converted to a number, is not at most 0; a price that is a number is then
  greater than 0.
\<close>

theorem create_rejects_nonpositive_price:
  "(\<forall>p. get_prop (body req) ''price'' = Some (JNum p) \<and>
        (p = NegInfinity \<or> (\<exists>x. p = Finite x \<and> x \<le> 0)) \<longrightarrow>
        status (fst (productController_createProduct svc req)) = 400 \<and>
        snd (productController_createProduct svc req) = []) \<and>
   (\<forall>b token. CreateProduct b token \<in> set (snd (productController_createProduct svc req)) \<longrightarrow>
        (\<exists>t a p. get_prop (body req) ''title'' = Some t \<and> truthy t \<and>
                 get_prop (body req) ''author'' = Some a \<and> truthy a \<and>
                 get_prop (body req) ''price'' = Some p \<and> truthy p \<and>
                 le_zero p = Some False \<and>
                 (\<forall>x. p = JNum x \<longrightarrow> num_less (Finite 0) x)))"
proof (intro conjI allI impI)
  fix p
  assume a: "get_prop (body req) ''price'' = Some (JNum p) \<and>
        (p = NegInfinity \<or> (\<exists>x. p = Finite x \<and> x \<le> 0))"
  then have le: "le_zero (JNum p) = Some True"
    by (auto simp add: le_zero_def ToNumber_def num_le_def)
  from a obtain t au where f: "get_prop (body req) ''title'' = Some t"
      "get_prop (body req) ''author'' = Some au"
    by (cases "body req") auto
  show "status (fst (productController_createProduct svc req)) = 400"
    using a f le
    by (simp add: productController_createProduct_def invalid_price_def json_error_def Let_def)
  show "snd (productController_createProduct svc req) = []"
    using a f le
    by (simp add: productController_createProduct_def invalid_price_def json_error_def Let_def)
next
  fix b token
  assume c: "CreateProduct b token \<in> set (snd (productController_createProduct svc req))"
  then obtain t a p where f: "get_prop (body req) ''title'' = Some t"
      "get_prop (body req) ''author'' = Some a" "get_prop (body req) ''price'' = Some p"
    by (auto simp add: productController_createProduct_def Let_def split: option.splits)
  with c have g: "truthy t" "truthy a" "truthy p" "le_zero p = Some False"
    by (auto simp add: productController_createProduct_def Let_def
        split: option.splits bool.splits if_splits)
  have "\<forall>x. p = JNum x \<longrightarrow> num_less (Finite 0) x"
  proof (intro allI impI)
    fix x assume "p = JNum x"
    with g(3,4) show "num_less (Finite 0) x"
      by (cases x) (auto simp add: le_zero_def ToNumber_def num_le_def truthy_num_def)
  qed
  with f g show "\<exists>t a p. get_prop (body req) ''title'' = Some t \<and> truthy t \<and>
                 get_prop (body req) ''author'' = Some a \<and> truthy a \<and>
                 get_prop (body req) ''price'' = Some p \<and> truthy p \<and>
                 le_zero p = Some False \<and>
                 (\<forall>x. p = JNum x \<longrightarrow> num_less (Finite 0) x)"
    by blast
qed

theorem create_rejects_nonpositive_price_witness:
  "status (fst (productController_createProduct sample_service
      (sample_request ''admin-token'' [] (priced (JNum (Finite 0)))))) = 400 \<and>
   status (fst (productController_createProduct sample_service
      (sample_request ''admin-token'' [] (priced (JNum (Finite (- 5))))))) = 400 \<and>
   snd (productController_createProduct sample_service
      (sample_request ''admin-token'' [] (priced (JNum (Finite (- 5)))))) = []"
proof -
  have z: "get_prop (body (sample_request ''admin-token'' [] (priced (JNum (Finite 0))))) ''price''
        = Some (JNum (Finite 0)) \<and>
      (Finite 0 = NegInfinity \<or> (\<exists>x. Finite 0 = Finite x \<and> x \<le> 0))"
    by (simp add: sample_request_def priced_def)
  have n: "get_prop (body (sample_request ''admin-token'' [] (priced (JNum (Finite (- 5))))))
        ''price'' = Some (JNum (Finite (- 5))) \<and>
      (Finite (- 5) = NegInfinity \<or> (\<exists>x. Finite (- 5) = Finite x \<and> x \<le> 0))"
    by (simp add: sample_request_def priced_def)
  from create_rejects_nonpositive_price[THEN conjunct1, rule_format, OF z]
    create_rejects_nonpositive_price[THEN conjunct1, rule_format, OF n]
  show ?thesis by simp
qed

text \<open>A price that is not a number: the string \<open>abc\<close> is truthy and converts to
  \<open>NaN\<close>, which is not at most 0, so the product is handed to the service and the
  answer is 201.\<close>

theorem create_string_price_counterexample:
  "productController_createProduct sample_service
      (sample_request ''admin-token'' [] (priced (JStr ''abc''))) =
     (created (Some [priced (JStr ''abc'')], None), [CreateProduct (priced (JStr ''abc'')) None]) \<and>
   status (created (Some [priced (JStr ''abc'')], None)) = 201 \<and>
   get_prop (priced (JStr ''abc'')) ''price'' = Some (JStr ''abc'')"
proof -
  have "StringToNumber ''abc'' = NaN"
    by (simp add: StringToNumber_def trim_def radix_of_prefix_def is_space_def
        signed_literal_def unsigned_literal_def is_digit_def)
  then have le: "le_zero (JStr ''abc'') = Some False"
    by (simp add: le_zero_def ToNumber_def num_le_def)
  have "productController_createProduct sample_service
      (sample_request ''admin-token'' [] (priced (JStr ''abc''))) =
     (created (createProduct sample_service (priced (JStr ''abc'')) None),
      [CreateProduct (priced (JStr ''abc'')) None])"
    using le
    by (simp add: productController_createProduct_def call_createProduct_def
        sample_request_def priced_def Let_def)
  then show ?thesis
    by (simp add: sample_service_def created_def priced_def)
qed

lemma update_accepted:
  assumes "\<not> invalid_id (parseInt (params_id req))"
    and "get_prop (body req) ''price'' = Some p" "price_given_and_le_zero p = Some False"
    and "\<not> not_existing (fst (getProductById svc (parseInt (params_id req)) (accessToken req)))"
  shows "productController_updateProduct svc req =
     (updated (updateProduct svc (parseInt (params_id req)) (body req) (accessToken req)),
      [GetProductById (parseInt (params_id req)) (accessToken req),
       UpdateProduct (parseInt (params_id req)) (body req) (accessToken req)])"
  using assms
  by (simp add: productController_updateProduct_def call_updateProduct_def
      call_getProductById_def split_beta Let_def)

text \<open>
  Claim C9. Once the checks of \<open>createProduct\<close> have passed, the handler calls
  \<open>supabaseService.createProduct\<close> once, with the request body as it was parsed, and its
  answer is made from what the service answers to that body; likewise \<open>updateProduct\<close>,
  after the lookup, calls \<open>supabaseService.updateProduct\<close> with the body as it was parsed.
  This holds for every backend and every body: no sanitizer of \<open>ValidationUtils\<close> is
  applied on the way, and neither handler hands the service any other product data.
\<close>

theorem write_path_forwards_body:
  "(\<forall>t a p. get_prop (body req) ''title'' = Some t \<and> truthy t \<and>
       get_prop (body req) ''author'' = Some a \<and> truthy a \<and>
       get_prop (body req) ''price'' = Some p \<and> truthy p \<and> le_zero p = Some False \<longrightarrow>
       productController_createProduct svc req =
         (created (createProduct svc (body req) (accessToken req)),
          [CreateProduct (body req) (accessToken req)])) \<and>
   (\<forall>p. num_less (Finite 0) (parseInt (params_id req)) \<and>
       get_prop (body req) ''price'' = Some p \<and> price_given_and_le_zero p = Some False \<and>
       \<not> not_existing (fst (getProductById svc (parseInt (params_id req)) (accessToken req))) \<longrightarrow>
       productController_updateProduct svc req =
         (updated (updateProduct svc (parseInt (params_id req)) (body req) (accessToken req)),
          [GetProductById (parseInt (params_id req)) (accessToken req),
           UpdateProduct (parseInt (params_id req)) (body req) (accessToken req)])) \<and>
   (\<forall>b token. CreateProduct b token \<in> set (snd (productController_createProduct svc req)) \<longrightarrow>
       b = body req) \<and>
   (\<forall>n b token. UpdateProduct n b token \<in> set (snd (productController_updateProduct svc req)) \<longrightarrow>
       b = body req)"
proof (intro conjI allI impI)
  fix t a p
  assume "get_prop (body req) ''title'' = Some t \<and> truthy t \<and>
       get_prop (body req) ''author'' = Some a \<and> truthy a \<and>
       get_prop (body req) ''price'' = Some p \<and> truthy p \<and> le_zero p = Some False"
  then show "productController_createProduct svc req =
         (created (createProduct svc (body req) (accessToken req)),
          [CreateProduct (body req) (accessToken req)])"
    by (intro create_accepted[of req t a p]) simp_all
next
  fix p
  assume "num_less (Finite 0) (parseInt (params_id req)) \<and>
       get_prop (body req) ''price'' = Some p \<and> price_given_and_le_zero p = Some False \<and>
       \<not> not_existing (fst (getProductById svc (parseInt (params_id req)) (accessToken req)))"
  then show "productController_updateProduct svc req =
         (updated (updateProduct svc (parseInt (params_id req)) (body req) (accessToken req)),
          [GetProductById (parseInt (params_id req)) (accessToken req),
           UpdateProduct (parseInt (params_id req)) (body req) (accessToken req)])"
    by (intro update_accepted[of req p]) (simp_all add: invalid_id_iff)
next
  fix b token
  assume "CreateProduct b token \<in> set (snd (productController_createProduct svc req))"
  then show "b = body req"
    by (auto simp add: productController_createProduct_def call_createProduct_def
        split_beta Let_def split: if_splits option.splits bool.splits)
next
  fix n b token
  assume "UpdateProduct n b token \<in> set (snd (productController_updateProduct svc req))"
  then show "b = body req"
    by (auto simp add: productController_updateProduct_def call_updateProduct_def
        call_getProductById_def split_beta Let_def
        split: if_splits option.splits bool.splits)
qed

text \<open>On a backend that answers an insert with the row it was given, the answer to the
  sample product carries that product back, the description with its event-handler
  pattern and the price as they were posted.\<close>

theorem write_path_forwards_body_witness:
  "productController_createProduct sample_service
      (sample_request ''admin-token'' [] sample_body) =
     (\<lparr>status = 201, error_field = None,
       message_field = Some (Text ''Product created successfully''),
       data_field = Row (Some sample_body)\<rparr>,
      [CreateProduct sample_body None]) \<and>
   get_prop sample_body ''description'' = Some (JStr ''<img onerror=alert(1)>'') \<and>
   get_prop sample_body ''price'' = Some (JNum sample_price)"
proof -
  have le: "truthy (JNum sample_price) \<and> le_zero (JNum sample_price) = Some False"
    unfolding sample_price_def by (rule positive_number_not_le_zero) simp
  have h: "get_prop (body (sample_request ''admin-token'' [] sample_body)) ''title''
        = Some (JStr ''Dune'') \<and> truthy (JStr ''Dune'') \<and>
      get_prop (body (sample_request ''admin-token'' [] sample_body)) ''author''
        = Some (JStr ''Frank Herbert'') \<and> truthy (JStr ''Frank Herbert'') \<and>
      get_prop (body (sample_request ''admin-token'' [] sample_body)) ''price''
        = Some (JNum sample_price) \<and> truthy (JNum sample_price) \<and>
      le_zero (JNum sample_price) = Some False"
    using sample_body_fields le by (simp add: sample_request_def)
  from write_path_forwards_body[THEN conjunct1, rule_format, OF h]
  have "productController_createProduct sample_service
      (sample_request ''admin-token'' [] sample_body) =
     (created (createProduct sample_service sample_body None), [CreateProduct sample_body None])"
    by (simp add: sample_request_def)
  then show ?thesis
    using sample_body_fields by (simp add: created_def sample_service_def)
qed

end
